theory Spec2Isabelle
  imports Complex_Main
begin

section \<open>Errors raised by the library\<close>

text \<open>
  Every exception class the modelled code raises is a constructor; a function that can
  raise returns \<open>error + 'a\<close> with \<open>Inl\<close> for the exception.
\<close>

datatype error =
    TypeError
  | IndexError
  | AttributeError
  | NotImplementedError
  | GalSimImmutableError
  | GalSimUndefinedBoundsError
  | GalSimBoundsError
  | GalSimIncompatibleValuesError
  | GalSimValueError
  | ValueError
  | ZeroDivisionError

section \<open>Bounds (bounds.py)\<close>

text \<open>
  A scalar handed to a constructor is either a plain Python number, for which
  \<^verbatim>\<open>isinstance(v, (float, int))\<close> holds, or a zero-dimensional jax array, for which
  it does not. Python numbers are modelled as reals (an \<^verbatim>\<open>int\<close> is an integral real).
\<close>

datatype 'a num = PyNum 'a | JaxArr 'a

fun num_val :: "'a num \<Rightarrow> 'a" where
  "num_val (PyNum v) = v"
| "num_val (JaxArr v) = v"

fun is_py :: "'a num \<Rightarrow> bool" where
  "is_py (PyNum v) = True"
| "is_py (JaxArr v) = False"

record 'a Position =
  pos_x :: 'a
  pos_y :: 'a

text \<open>
  The attributes of a \<^verbatim>\<open>Bounds\<close> object. \<^verbatim>\<open>BoundsI\<close> is \<open>int Bounds\<close> and
  \<^verbatim>\<open>BoundsD\<close> is \<open>real Bounds\<close>, so the \<^verbatim>\<open>isinstance(other, self.__class__)\<close>
  tests of the binary operators are typing constraints here.
\<close>

record 'a Bounds =
  isdefined :: bool
  xmin :: 'a
  xmax :: 'a
  ymin :: 'a
  ymax :: 'a

text \<open>
  The positional argument lists \<^verbatim>\<open>_parse_args\<close> distinguishes by \<^verbatim>\<open>len(args)\<close>. The
  attributes of a \<^verbatim>\<open>Bounds\<close> or \<^verbatim>\<open>Position\<close> argument are taken to hold plain Python
  numbers.
\<close>

datatype 'a bounds_args =
    Args0
  | Args1B "'a Bounds"
  | Args1P "'a Position"
  | Args1Other
  | Args2 "'a Position" "'a Position"
  | Args2Other
  | Args4 "'a num" "'a num" "'a num" "'a num"
  | ArgsMany

text \<open>
  The state \<^verbatim>\<open>_parse_args\<close> leaves on \<^verbatim>\<open>self\<close>: the flag and the four raw attributes,
  before the subclass casts them.
\<close>

record 'a raw_bounds =
  raw_isdefined :: bool
  raw_xmin :: "'a num"
  raw_xmax :: "'a num"
  raw_ymin :: "'a num"
  raw_ymax :: "'a num"

text \<open>
  The closing test of \<^verbatim>\<open>_parse_args\<close>: for four plain Python numbers with inverted
  extrema only the flag is cleared; the attributes keep what was assigned. The numbers
  of the model are reals, that is, finite Python numbers: a float NaN, for which both
  \<^verbatim>\<open>>\<close> and \<^verbatim>\<open><=\<close> are false, and the infinities are not inputs of the model.
\<close>

definition check_valid :: "('a::linorder) raw_bounds \<Rightarrow> 'a raw_bounds" where
  "check_valid r =
     (if is_py (raw_xmin r) \<and> is_py (raw_xmax r) \<and> is_py (raw_ymin r) \<and> is_py (raw_ymax r)
         \<and> (num_val (raw_xmin r) > num_val (raw_xmax r)
              \<or> num_val (raw_ymin r) > num_val (raw_ymax r))
      then r\<lparr>raw_isdefined := False\<rparr>
      else r)"

fun parse_args :: "('a::{linorder,zero}) bounds_args \<Rightarrow> error + 'a raw_bounds" where
  "parse_args (Args4 a b c d) =
     Inr (check_valid \<lparr>raw_isdefined = True, raw_xmin = a, raw_xmax = b,
                       raw_ymin = c, raw_ymax = d\<rparr>)"
| "parse_args Args0 =
     Inr (check_valid \<lparr>raw_isdefined = False, raw_xmin = PyNum 0, raw_xmax = PyNum 0,
                       raw_ymin = PyNum 0, raw_ymax = PyNum 0\<rparr>)"
| "parse_args (Args1B b) =
     Inr (check_valid \<lparr>raw_isdefined = True, raw_xmin = PyNum (xmin b),
                       raw_xmax = PyNum (xmax b), raw_ymin = PyNum (ymin b),
                       raw_ymax = PyNum (ymax b)\<rparr>)"
| "parse_args (Args1P p) =
     Inr (check_valid \<lparr>raw_isdefined = True, raw_xmin = PyNum (pos_x p),
                       raw_xmax = PyNum (pos_x p), raw_ymin = PyNum (pos_y p),
                       raw_ymax = PyNum (pos_y p)\<rparr>)"
| "parse_args Args1Other = Inl TypeError"
| "parse_args (Args2 p q) =
     Inr (check_valid \<lparr>raw_isdefined = True, raw_xmin = PyNum (min (pos_x p) (pos_x q)),
                       raw_xmax = PyNum (max (pos_x p) (pos_x q)),
                       raw_ymin = PyNum (min (pos_y p) (pos_y q)),
                       raw_ymax = PyNum (max (pos_y p) (pos_y q))\<rparr>)"
| "parse_args Args2Other = Inl TypeError"
| "parse_args ArgsMany = Inl TypeError"

text \<open>
  \<^verbatim>\<open>cast_to_float\<close> and \<^verbatim>\<open>cast_to_int\<close> live in core/utils.py. On reals the first keeps
  the value; the second is Python's \<^verbatim>\<open>int()\<close>, which truncates toward zero.
\<close>

definition cast_to_float :: "real num \<Rightarrow> real" where
  "cast_to_float v = num_val v"

definition py_int :: "real \<Rightarrow> int" where
  "py_int r = (if 0 \<le> r then \<lfloor>r\<rfloor> else \<lceil>r\<rceil>)"

definition cast_to_int :: "real num \<Rightarrow> int" where
  "cast_to_int v = py_int (num_val v)"

definition BoundsD_init :: "real bounds_args \<Rightarrow> error + real Bounds" where
  "BoundsD_init args =
     (case parse_args args of
        Inl e \<Rightarrow> Inl e
      | Inr r \<Rightarrow>
          Inr \<lparr>isdefined = raw_isdefined r,
               xmin = cast_to_float (raw_xmin r), xmax = cast_to_float (raw_xmax r),
               ymin = cast_to_float (raw_ymin r), ymax = cast_to_float (raw_ymax r)\<rparr>)"

definition not_integral :: "real num \<Rightarrow> bool" where
  "not_integral v = (num_val v \<noteq> of_int (py_int (num_val v)))"

definition BoundsI_init :: "real bounds_args \<Rightarrow> error + int Bounds" where
  "BoundsI_init args =
     (case parse_args args of
        Inl e \<Rightarrow> Inl e
      | Inr r \<Rightarrow>
          if is_py (raw_xmin r) \<and> is_py (raw_xmax r) \<and> is_py (raw_ymin r) \<and> is_py (raw_ymax r)
             \<and> (not_integral (raw_xmin r) \<or> not_integral (raw_xmax r)
                  \<or> not_integral (raw_ymin r) \<or> not_integral (raw_ymax r))
          then Inl TypeError
          else
            Inr \<lparr>isdefined = raw_isdefined r,
                 xmin = cast_to_int (raw_xmin r), xmax = cast_to_int (raw_xmax r),
                 ymin = cast_to_int (raw_ymin r), ymax = cast_to_int (raw_ymax r)\<rparr>)"

text \<open>A \<^verbatim>\<open>BoundsI\<close> passed where any \<^verbatim>\<open>Bounds\<close> is accepted, its integers read as reals.\<close>

definition Bounds_of_int :: "int Bounds \<Rightarrow> real Bounds" where
  "Bounds_of_int b =
     \<lparr>isdefined = isdefined b, xmin = of_int (xmin b), xmax = of_int (xmax b),
      ymin = of_int (ymin b), ymax = of_int (ymax b)\<rparr>"

text \<open>\<^verbatim>\<open>isDefined\<close> is inherited from the base class and returns the flag.\<close>

definition isDefined :: "'a Bounds \<Rightarrow> bool" where
  "isDefined b = isdefined b"

text \<open>\<^verbatim>\<open>self.__class__()\<close>: the no-argument constructor, in either subclass.\<close>

definition Bounds_empty :: "('a::zero) Bounds" where
  "Bounds_empty = \<lparr>isdefined = False, xmin = 0, xmax = 0, ymin = 0, ymax = 0\<rparr>"

text \<open>
  \<^verbatim>\<open>self.__class__(xmin, xmax, ymin, ymax)\<close> on the results of \<^verbatim>\<open>jnp.minimum\<close> and
  \<^verbatim>\<open>jnp.maximum\<close>: these are jax arrays of the class's own number type, so the validity
  test of \<^verbatim>\<open>_parse_args\<close> and the integrality test of \<^verbatim>\<open>BoundsI\<close> do not apply and the
  casts keep the values.
\<close>

definition Bounds_of_jax :: "'a \<Rightarrow> 'a \<Rightarrow> 'a \<Rightarrow> 'a \<Rightarrow> 'a Bounds" where
  "Bounds_of_jax a b c d = \<lparr>isdefined = True, xmin = a, xmax = b, ymin = c, ymax = d\<rparr>"

definition Bounds_includes :: "('a::linorder) Bounds \<Rightarrow> 'a Bounds \<Rightarrow> bool" where
  "Bounds_includes self b =
     (isDefined self \<and> isDefined b \<and> xmin self \<le> xmin b \<and> xmax self \<ge> xmax b
        \<and> ymin self \<le> ymin b \<and> ymax self \<ge> ymax b)"

definition Bounds_includes_pos :: "('a::linorder) Bounds \<Rightarrow> 'a Position \<Rightarrow> bool" where
  "Bounds_includes_pos self p =
     (isDefined self \<and> xmin self \<le> pos_x p \<and> pos_x p \<le> xmax self
        \<and> ymin self \<le> pos_y p \<and> pos_y p \<le> ymax self)"

definition Bounds_and :: "('a::{linorder,zero}) Bounds \<Rightarrow> 'a Bounds \<Rightarrow> 'a Bounds" where
  "Bounds_and self other =
     (if \<not> isDefined self \<or> \<not> isDefined other then Bounds_empty
      else
        let xmin' = max (xmin self) (xmin other);
            xmax' = min (xmax self) (xmax other);
            ymin' = max (ymin self) (ymin other);
            ymax' = min (ymax self) (ymax other)
        in if xmin' > xmax' \<or> ymin' > ymax' then Bounds_empty
           else Bounds_of_jax xmin' xmax' ymin' ymax')"

text \<open>\<^verbatim>\<open>__add__\<close>, the branch for another \<^verbatim>\<open>Bounds\<close> of the same class.\<close>

definition Bounds_add :: "('a::linorder) Bounds \<Rightarrow> 'a Bounds \<Rightarrow> 'a Bounds" where
  "Bounds_add self other =
     (if \<not> isDefined other then self
      else if isDefined self then
        Bounds_of_jax (min (xmin self) (xmin other)) (max (xmax self) (xmax other))
                      (min (ymin self) (ymin other)) (max (ymax self) (ymax other))
      else other)"

text \<open>
  \<^verbatim>\<open>tree_flatten\<close>: a defined bounds flattens to its four extrema, an undefined one to the
  empty tuple. Equality of bounds is inherited from the base class, which compares the
  constructor arguments, the same tuple; so all undefined bounds are equal.
\<close>

definition tree_flatten :: "'a Bounds \<Rightarrow> 'a list" where
  "tree_flatten b = (if isDefined b then [xmin b, xmax b, ymin b, ymax b] else [])"

definition Bounds_eq :: "'a Bounds \<Rightarrow> 'a Bounds \<Rightarrow> bool" where
  "Bounds_eq a b = (tree_flatten a = tree_flatten b)"

definition numpyShape :: "int Bounds \<Rightarrow> int \<times> int" where
  "numpyShape b =
     (if isDefined b then (ymax b - ymin b + 1, xmax b - xmin b + 1) else (0, 0))"

text \<open>\<^verbatim>\<open>BoundsI(a, b, c, d)\<close> on four Python ints, as the image constructors call it.\<close>

definition BoundsI4 :: "int \<Rightarrow> int \<Rightarrow> int \<Rightarrow> int \<Rightarrow> int Bounds" where
  "BoundsI4 a b c d =
     \<lparr>isdefined = \<not> (a > b \<or> c > d), xmin = a, xmax = b, ymin = c, ymax = d\<rparr>"

text \<open>Whether an argument list holds plain Python numbers only.\<close>

fun args_py :: "'a bounds_args \<Rightarrow> bool" where
  "args_py (Args4 a b c d) = (is_py a \<and> is_py b \<and> is_py c \<and> is_py d)"
| "args_py other = True"

section \<open>GSParams (gsparams.py)\<close>

text \<open>
  The accuracy parameters attached to every object. Only the fields the modelled code
  reads or compares are kept.
\<close>

record GSParams =
  minimum_fft_size :: nat
  maximum_fft_size :: nat
  folding_threshold :: real
  kvalue_accuracy :: real

text \<open>
  Modelled from the spec: \<^verbatim>\<open>GSParams.check(gsparams, default)\<close> of gsparams.py, which is
  not among the sources. It returns the given parameters, or the default when none are
  given.
\<close>

definition GSParams_check :: "GSParams option \<Rightarrow> GSParams \<Rightarrow> GSParams" where
  "GSParams_check gsparams dflt = (case gsparams of None \<Rightarrow> dflt | Some g \<Rightarrow> g)"

text \<open>
  Modelled from the spec: \<^verbatim>\<open>GSParams.combine(list)\<close> of gsparams.py, which is not among
  the sources: the merged, most restrictive parameters of a list (largest FFT sizes,
  smallest thresholds). It reads the first element, so an empty list is an IndexError.
\<close>

definition GSParams_merge :: "GSParams \<Rightarrow> GSParams \<Rightarrow> GSParams" where
  "GSParams_merge g h =
     \<lparr>minimum_fft_size = max (minimum_fft_size g) (minimum_fft_size h),
      maximum_fft_size = max (maximum_fft_size g) (maximum_fft_size h),
      folding_threshold = min (folding_threshold g) (folding_threshold h),
      kvalue_accuracy = min (kvalue_accuracy g) (kvalue_accuracy h)\<rparr>"

fun GSParams_combine :: "GSParams list \<Rightarrow> error + GSParams" where
  "GSParams_combine [] = Inl IndexError"
| "GSParams_combine (g # gs) = Inr (foldl GSParams_merge g gs)"

section \<open>GSObject, Convolution, Deconvolution (gsobject.py, convolve.py)\<close>

text \<open>
  A profile family is an external collaborator; a leaf stands for any of them and exposes
  the abstract contract only: its class, flux, centroid, the three class flags and its
  gsparams.
\<close>

record Profile =
  p_class :: string
  p_flux :: real
  p_centroid :: "real Position"
  p_has_hard_edges :: bool
  p_is_analytic_x :: bool
  p_is_analytic_k :: bool
  p_gsparams :: GSParams

text \<open>
  \<^verbatim>\<open>Convolution\<close> holds \<^verbatim>\<open>_obj_list\<close>, \<^verbatim>\<open>_real_space\<close>, \<^verbatim>\<open>_gsparams\<close> and
  \<^verbatim>\<open>_propagate_gsparams\<close>; \<^verbatim>\<open>Deconvolution\<close> holds \<^verbatim>\<open>_orig_obj\<close>, \<^verbatim>\<open>_gsparams\<close> and
  \<^verbatim>\<open>_propagate_gsparams\<close>.
\<close>

datatype GSObject =
    Leaf Profile
  | Convolution "GSObject list" bool GSParams bool
  | Deconvolution GSObject GSParams bool

fun gsparams :: "GSObject \<Rightarrow> GSParams" where
  "gsparams (Leaf p) = p_gsparams p"
| "gsparams (Convolution objs rs g prop) = g"
| "gsparams (Deconvolution obj g prop) = g"

text \<open>
  \<^verbatim>\<open>withGSParams\<close> of the three classes. The leaf version rebuilds the object from its
  flattened parameters with the new gsparams; the two composite versions copy the node
  and, when \<^verbatim>\<open>_propagate_gsparams\<close> is set, update the children.
\<close>

fun withGSParams :: "GSObject \<Rightarrow> GSParams option \<Rightarrow> GSObject" where
  "withGSParams (Leaf p) new =
     (if new = Some (p_gsparams p) then Leaf p
      else Leaf (p\<lparr>p_gsparams := GSParams_check new (p_gsparams p)\<rparr>))"
| "withGSParams (Convolution objs rs g prop) new =
     (if new = Some g then Convolution objs rs g prop
      else
        let g' = GSParams_check new g
        in Convolution (if prop then map (\<lambda>obj. withGSParams obj (Some g')) objs else objs)
                       rs g' prop)"
| "withGSParams (Deconvolution obj g prop) new =
     (if new = Some g then Deconvolution obj g prop
      else
        let g' = GSParams_check new g
        in Deconvolution (if prop then withGSParams obj (Some g') else obj) g' prop)"

text \<open>
  Fluxes are modelled as reals: \<^verbatim>\<open>jnp.prod\<close> is the product of the list and the
  reciprocal is the real one (floating-point infinities and NaN are outside the model).
\<close>

fun flux :: "GSObject \<Rightarrow> real" where
  "flux (Leaf p) = p_flux p"
| "flux (Convolution objs rs g prop) = prod_list (map flux objs)"
| "flux (Deconvolution obj g prop) = 1 / flux obj"

text \<open>\<^verbatim>\<open>PositionD\<close> addition and negation (position.py) are component-wise.\<close>

definition pos_add :: "real Position \<Rightarrow> real Position \<Rightarrow> real Position" where
  "pos_add p q = \<lparr>pos_x = pos_x p + pos_x q, pos_y = pos_y p + pos_y q\<rparr>"

definition pos_neg :: "real Position \<Rightarrow> real Position" where
  "pos_neg p = \<lparr>pos_x = - pos_x p, pos_y = - pos_y p\<rparr>"

text \<open>Evaluating a list comprehension whose elements may raise: the first error wins.\<close>

fun collect :: "(error + 'a) list \<Rightarrow> error + 'a list" where
  "collect [] = Inr []"
| "collect (Inl e # rs) = Inl e"
| "collect (Inr v # rs) = (case collect rs of Inl e \<Rightarrow> Inl e | Inr vs \<Rightarrow> Inr (v # vs))"

text \<open>
  \<^verbatim>\<open>Convolution._centroid\<close> is \<^verbatim>\<open>sum(cen_list[1:], cen_list[0])\<close>, which raises
  IndexError on an empty list; \<^verbatim>\<open>Deconvolution._centroid\<close> negates the child's.
\<close>

fun centroid :: "GSObject \<Rightarrow> error + real Position" where
  "centroid (Leaf p) = Inr (p_centroid p)"
| "centroid (Convolution objs rs g prop) =
     (case collect (map centroid objs) of
        Inl e \<Rightarrow> Inl e
      | Inr [] \<Rightarrow> Inl IndexError
      | Inr (c # cs) \<Rightarrow> Inr (foldl pos_add c cs))"
| "centroid (Deconvolution obj g prop) =
     (case centroid obj of Inl e \<Rightarrow> Inl e | Inr c \<Rightarrow> Inr (pos_neg c))"

fun has_hard_edges :: "GSObject \<Rightarrow> bool" where
  "has_hard_edges (Leaf p) = p_has_hard_edges p"
| "has_hard_edges (Convolution [obj] rs g prop) = has_hard_edges obj"
| "has_hard_edges (Convolution objs rs g prop) = False"
| "has_hard_edges (Deconvolution obj g prop) = False"

text \<open>
  \<^verbatim>\<open>Convolution._is_analytic_x\<close>: with two children and \<^verbatim>\<open>real_space\<close> set, the source
  builds the children's list and then calls \<^verbatim>\<open>jnp.arry\<close>, a name that does not exist, so
  that branch ends in an AttributeError.
\<close>

fun is_analytic_x :: "GSObject \<Rightarrow> error + bool" where
  "is_analytic_x (Leaf p) = Inr (p_is_analytic_x p)"
| "is_analytic_x (Convolution [obj] rs g prop) = is_analytic_x obj"
| "is_analytic_x (Convolution objs rs g prop) =
     (if rs \<and> length objs = 2 then
        (case collect (map is_analytic_x objs) of
           Inl e \<Rightarrow> Inl e
         | Inr axs \<Rightarrow> Inl AttributeError)
      else Inr False)"
| "is_analytic_x (Deconvolution obj g prop) = Inr False"




text \<open>
  \<^verbatim>\<open>__eq__\<close>. \<^verbatim>\<open>self is other\<close> is a fast path only: an object is structurally equal to
  itself. A leaf compares class and flattened contents; the composites require the
  other object to be of their own class and compare their attributes.
\<close>

fun GSObject_eq :: "GSObject \<Rightarrow> GSObject \<Rightarrow> bool" where
  "GSObject_eq (Leaf p) (Leaf q) = (p = q)"
| "GSObject_eq (Convolution objs rs g prop) (Convolution objs' rs' g' prop') =
     (list_all2 GSObject_eq objs objs' \<and> rs = rs' \<and> g = g' \<and> prop = prop')"
| "GSObject_eq (Deconvolution obj g prop) (Deconvolution obj' g' prop') =
     (GSObject_eq obj obj' \<and> g = g' \<and> prop = prop')"
| "GSObject_eq a b = False"

text \<open>\<^verbatim>\<open>Deconvolution.__init__\<close> and the function \<^verbatim>\<open>Deconvolve\<close> that calls it.\<close>

definition Deconvolution_init :: "GSObject \<Rightarrow> GSParams option \<Rightarrow> bool \<Rightarrow> GSObject" where
  "Deconvolution_init obj gsp propagate_gsparams =
     (let g = GSParams_check gsp (gsparams obj)
      in Deconvolution (if propagate_gsparams then withGSParams obj (Some g) else obj)
                       g propagate_gsparams)"

definition Deconvolve :: "GSObject \<Rightarrow> GSParams option \<Rightarrow> bool \<Rightarrow> GSObject" where
  "Deconvolve obj gsp propagate_gsparams = Deconvolution_init obj gsp propagate_gsparams"

fun orig_obj :: "GSObject \<Rightarrow> error + GSObject" where
  "orig_obj (Deconvolution obj g prop) = Inr obj"
| "orig_obj other = Inl AttributeError"

text \<open>
  \<^verbatim>\<open>Convolution.__init__\<close>. The positional arguments are either the objects themselves
  or one list of them; \<^verbatim>\<open>real_space\<close> is \<^verbatim>\<open>None\<close> or a boolean. Without gsparams the
  children's are combined; given gsparams go through \<^verbatim>\<open>GSParams.check\<close>, which returns
  them. The constructor returns the object and the warnings it emitted, in order.
\<close>

datatype conv_args = Positional "GSObject list" | SingleList "GSObject list" | SingleOther

datatype warning =
    WarnTwoHardEdges
  | WarnAllHardEdges
  | WarnMoreThanTwo
  | WarnNotAnalyticX

fun unpack_args :: "conv_args \<Rightarrow> error + GSObject list" where
  "unpack_args (Positional []) = Inl TypeError"
| "unpack_args (Positional objs) = Inr objs"
| "unpack_args (SingleList objs) = Inr objs"
| "unpack_args SingleOther = Inl TypeError"

text \<open>
  The loop over the children that looks for one that is not analytic in real space and
  stops at the first: \<open>Inr True\<close> when it found one.
\<close>

fun find_not_analytic_x :: "GSObject list \<Rightarrow> error + bool" where
  "find_not_analytic_x [] = Inr False"
| "find_not_analytic_x (obj # objs) =
     (case is_analytic_x obj of
        Inl e \<Rightarrow> Inl e
      | Inr a \<Rightarrow> if \<not> a then Inr True else find_not_analytic_x objs)"

definition Convolution_init ::
  "conv_args \<Rightarrow> bool option \<Rightarrow> GSParams option \<Rightarrow> bool \<Rightarrow> error + (GSObject \<times> warning list)" where
  "Convolution_init cargs real_space gsp propagate_gsparams =
     (case unpack_args cargs of
        Inl e \<Rightarrow> Inl e
      | Inr args \<Rightarrow>
          let hard_edge = list_all has_hard_edges args;
              rs1 = (case real_space of
                       None \<Rightarrow> if length args \<le> 2 then hard_edge else False
                     | Some b \<Rightarrow> b);
              w1 = (if \<not> rs1 \<and> hard_edge
                    then (if length args = 2 then [WarnTwoHardEdges] else [WarnAllHardEdges])
                    else [])
          in case (if rs1 then
                     (if length args > 2 then Inr (False, [WarnMoreThanTwo])
                      else (case find_not_analytic_x args of
                              Inl e \<Rightarrow> Inl e
                            | Inr found \<Rightarrow>
                                if found then Inr (False, [WarnNotAnalyticX]) else Inr (True, [])))
                   else Inr (False, [])) of
               Inl e \<Rightarrow> Inl e
             | Inr (rs2, w2) \<Rightarrow>
                 if rs2 then Inl NotImplementedError
                 else
                   (case (case gsp of
                            None \<Rightarrow> GSParams_combine (map gsparams args)
                          | Some g \<Rightarrow> Inr (GSParams_check (Some g) g)) of
                      Inl e \<Rightarrow> Inl e
                    | Inr g \<Rightarrow>
                        Inr (Convolution
                               (if propagate_gsparams
                                then map (\<lambda>obj. withGSParams obj (Some g)) args
                                else args)
                               False g propagate_gsparams,
                             w1 @ w2)))"

section \<open>Image (image.py)\<close>

text \<open>
  The world-coordinate transform is an external collaborator (wcs.py); the image only
  stores it and hands it on.
\<close>

datatype WCS = PixelScale real | OtherWCS string

text \<open>
  A two-dimensional array is the list of its rows, all of one length. Pixel values live
  in one numeric type \<open>'a\<close>, so \<^verbatim>\<open>astype\<close> is the identity in the model.
\<close>

type_synonym 'a ndarray = "'a list list"

definition shape :: "'a ndarray \<Rightarrow> nat \<times> nat" where
  "shape a = (length a, case a of [] \<Rightarrow> 0 | r # rs \<Rightarrow> length r)"

record 'a Image =
  array :: "'a ndarray"
  bounds :: "int Bounds"
  wcs :: "WCS option"
  isconst :: bool

definition zeros :: "nat \<times> nat \<Rightarrow> ('a::zero) ndarray" where
  "zeros sh = replicate (fst sh) (replicate (snd sh) 0)"

text \<open>
  \<^verbatim>\<open>_make_empty\<close>: a degenerate shape gives a single pixel; \<^verbatim>\<open>jnp.zeros\<close> rejects a
  negative dimension with a ValueError.
\<close>

definition make_empty :: "int \<times> int \<Rightarrow> error + ('a::zero) ndarray" where
  "make_empty sh =
     (if fst sh * snd sh = 0 then Inr (zeros (1, 1))
      else if fst sh < 0 \<or> snd sh < 0 then Inl ValueError
      else Inr (zeros (nat (fst sh), nat (snd sh))))"

text \<open>\<^verbatim>\<open>Image(bounds)\<close>: a zero image on the given bounds, with no wcs, not const.\<close>

definition Image_of_bounds :: "int Bounds \<Rightarrow> error + ('a::zero) Image" where
  "Image_of_bounds b =
     (case make_empty (numpyShape b) of
        Inl e \<Rightarrow> Inl e
      | Inr arr \<Rightarrow> Inr \<lparr>array = arr, bounds = b, wcs = None, isconst = False\<rparr>)"

text \<open>
  \<^verbatim>\<open>Image(array, bounds=b, wcs=w, make_const=c)\<close>: \<^verbatim>\<open>_get_xmin_ymin\<close> checks the array
  against defined bounds; with undefined bounds the array is dropped and the image is
  the empty one-pixel image.
\<close>

definition Image_of_array ::
  "('a::zero) ndarray \<Rightarrow> int Bounds \<Rightarrow> WCS option \<Rightarrow> bool \<Rightarrow> error + 'a Image" where
  "Image_of_array arr b w make_const =
     (if isDefined b then
        if xmax b - xmin b + 1 \<noteq> int (snd (shape arr)) then Inl GalSimIncompatibleValuesError
        else if ymax b - ymin b + 1 \<noteq> int (fst (shape arr)) then Inl GalSimIncompatibleValuesError
        else
          Inr \<lparr>array = arr,
               bounds = BoundsI4 (xmin b) (xmin b + int (snd (shape arr)) - 1)
                                 (ymin b) (ymin b + int (fst (shape arr)) - 1),
               wcs = w, isconst = make_const\<rparr>
      else
        Inr \<lparr>array = zeros (1, 1), bounds = Bounds_empty, wcs = w, isconst = make_const\<rparr>)"

definition resize :: "('a::zero) Image \<Rightarrow> int Bounds \<Rightarrow> WCS option \<Rightarrow> error + 'a Image" where
  "resize self b w =
     (if isconst self then Inl GalSimImmutableError
      else
        case make_empty (numpyShape b) of
          Inl e \<Rightarrow> Inl e
        | Inr arr \<Rightarrow>
            Inr (self\<lparr>array := arr, bounds := b,
                      wcs := (case w of None \<Rightarrow> wcs self | Some v \<Rightarrow> Some v)\<rparr>))"

text \<open>Python's slice \<^verbatim>\<open>xs[i:j]\<close>: negative indices count from the end, both are clipped.\<close>

definition slice_index :: "nat \<Rightarrow> int \<Rightarrow> nat" where
  "slice_index n i = (if i < 0 then nat (max 0 (int n + i)) else min n (nat i))"

definition py_slice :: "'a list \<Rightarrow> int \<Rightarrow> int \<Rightarrow> 'a list" where
  "py_slice xs i j =
     (let a = slice_index (length xs) i; b = slice_index (length xs) j
      in take (b - a) (drop a xs))"

definition slice2d :: "'a ndarray \<Rightarrow> int \<Rightarrow> int \<Rightarrow> int \<Rightarrow> int \<Rightarrow> 'a ndarray" where
  "slice2d a i1 i2 j1 j2 = map (\<lambda>row. py_slice row j1 j2) (py_slice a i1 i2)"

definition subImage :: "('a::zero) Image \<Rightarrow> int Bounds \<Rightarrow> error + 'a Image" where
  "subImage self b =
     (if \<not> isDefined (bounds self) then Inl GalSimUndefinedBoundsError
      else if \<not> Bounds_includes (bounds self) b then Inl GalSimBoundsError
      else
        let i1 = ymin b - ymin (bounds self);
            i2 = ymax b - ymin (bounds self) + 1;
            j1 = xmin b - xmin (bounds self);
            j2 = xmax b - xmin (bounds self) + 1
        in Image_of_array (slice2d (array self) i1 i2 j1 j2) b (wcs self) False)"

text \<open>
  \<^verbatim>\<open>.at[i1:i2, j1:j2].set(values)\<close>: the rows and columns of the slice take the given
  values, the rest of the array is kept.
\<close>

definition set_slice :: "'a list \<Rightarrow> int \<Rightarrow> int \<Rightarrow> 'a list \<Rightarrow> 'a list" where
  "set_slice xs i j vs =
     (let a = slice_index (length xs) i; b = slice_index (length xs) j
      in take a xs @ take (b - a) vs @ drop (max a b) xs)"

definition set_slice2d ::
  "'a ndarray \<Rightarrow> int \<Rightarrow> int \<Rightarrow> int \<Rightarrow> int \<Rightarrow> 'a ndarray \<Rightarrow> 'a ndarray" where
  "set_slice2d a i1 i2 j1 j2 vs =
     set_slice a i1 i2 (map2 (\<lambda>row v. set_slice row j1 j2 v) (py_slice a i1 i2) vs)"

definition setSubImage :: "'a Image \<Rightarrow> int Bounds \<Rightarrow> 'a Image \<Rightarrow> error + 'a Image" where
  "setSubImage self b rhs =
     (if isconst self then Inl GalSimImmutableError
      else if \<not> isDefined (bounds self) then Inl GalSimUndefinedBoundsError
      else if \<not> Bounds_includes (bounds self) b then Inl GalSimBoundsError
      else if numpyShape b \<noteq> numpyShape (bounds rhs) then Inl GalSimIncompatibleValuesError
      else
        let i1 = ymin b - ymin (bounds self);
            i2 = ymax b - ymin (bounds self) + 1;
            j1 = xmin b - xmin (bounds self);
            j2 = xmax b - xmin (bounds self) + 1
        in Inr (self\<lparr>array := set_slice2d (array self) i1 i2 j1 j2 (array rhs)\<rparr>))"

definition copyFrom :: "'a Image \<Rightarrow> 'a Image \<Rightarrow> error + 'a Image" where
  "copyFrom self rhs =
     (if isconst self then Inl GalSimImmutableError
      else if numpyShape (bounds self) \<noteq> numpyShape (bounds rhs)
      then Inl GalSimIncompatibleValuesError
      else Inr (self\<lparr>array := array rhs\<rparr>))"

text \<open>
  \<^verbatim>\<open>.at[i, j].set(value)\<close> and \<^verbatim>\<open>.at[i, j].add(value)\<close> at a position inside the array;
  a position outside changes nothing.
\<close>

definition at_apply :: "'a ndarray \<Rightarrow> int \<Rightarrow> int \<Rightarrow> ('a \<Rightarrow> 'a) \<Rightarrow> 'a ndarray" where
  "at_apply a i j f =
     (if 0 \<le> i \<and> nat i < length a \<and> 0 \<le> j \<and> nat j < length (a ! nat i)
      then a[nat i := (a ! nat i)[nat j := f ((a ! nat i) ! nat j)]]
      else a)"

definition setValue_unchecked :: "'a Image \<Rightarrow> int \<Rightarrow> int \<Rightarrow> 'a \<Rightarrow> 'a Image" where
  "setValue_unchecked self px py v =
     self\<lparr>array := at_apply (array self) (py - ymin (bounds self)) (px - xmin (bounds self))
                             (\<lambda>old. v)\<rparr>"

definition addValue_unchecked :: "('a::plus) Image \<Rightarrow> int \<Rightarrow> int \<Rightarrow> 'a \<Rightarrow> 'a Image" where
  "addValue_unchecked self px py v =
     self\<lparr>array := at_apply (array self) (py - ymin (bounds self)) (px - xmin (bounds self))
                             (\<lambda>old. old + v)\<rparr>"

text \<open>
  \<^verbatim>\<open>setValue\<close> and \<^verbatim>\<open>addValue\<close>. The third argument is what \<^verbatim>\<open>parse_pos_args\<close> makes
  of the call's arguments: a TypeError or the position and the value.
\<close>

definition setValue :: "'a Image \<Rightarrow> error + (int Position \<times> 'a) \<Rightarrow> error + 'a Image" where
  "setValue self parsed =
     (if isconst self then Inl GalSimImmutableError
      else if \<not> isDefined (bounds self) then Inl GalSimUndefinedBoundsError
      else case parsed of
             Inl e \<Rightarrow> Inl e
           | Inr (pos, v) \<Rightarrow>
               if \<not> Bounds_includes_pos (bounds self) pos then Inl GalSimBoundsError
               else Inr (setValue_unchecked self (pos_x pos) (pos_y pos) v))"

definition addValue :: "('a::plus) Image \<Rightarrow> error + (int Position \<times> 'a) \<Rightarrow> error + 'a Image" where
  "addValue self parsed =
     (if isconst self then Inl GalSimImmutableError
      else if \<not> isDefined (bounds self) then Inl GalSimUndefinedBoundsError
      else case parsed of
             Inl e \<Rightarrow> Inl e
           | Inr (pos, v) \<Rightarrow>
               if \<not> Bounds_includes_pos (bounds self) pos then Inl GalSimBoundsError
               else Inr (addValue_unchecked self (pos_x pos) (pos_y pos) v))"

text \<open>\<^verbatim>\<open>_fill\<close> is \<^verbatim>\<open>jnp.zeros_like(array) + value\<close>.\<close>

definition fill_unchecked :: "'a Image \<Rightarrow> 'a \<Rightarrow> 'a Image" where
  "fill_unchecked self v = self\<lparr>array := map (map (\<lambda>old. v)) (array self)\<rparr>"

definition fill :: "'a Image \<Rightarrow> 'a \<Rightarrow> error + 'a Image" where
  "fill self v =
     (if isconst self then Inl GalSimImmutableError
      else if \<not> isDefined (bounds self) then Inl GalSimUndefinedBoundsError
      else Inr (fill_unchecked self v))"

definition setZero :: "('a::zero) Image \<Rightarrow> error + 'a Image" where
  "setZero self =
     (if isconst self then Inl GalSimImmutableError
      else Inr (fill_unchecked self 0))"

text \<open>
  The arithmetic operators take another image or a scalar: an operand without an
  \<^verbatim>\<open>array\<close> attribute is used as it is and broadcast over the pixels.
\<close>

datatype 'a operand = Img "'a Image" | Scalar 'a

text \<open>\<^verbatim>\<open>check_image_consistency\<close> with \<^verbatim>\<open>integer=False\<close>, as \<^verbatim>\<open>+ - * /\<close> call it.\<close>

fun check_image_consistency :: "'a Image \<Rightarrow> 'a operand \<Rightarrow> error + unit" where
  "check_image_consistency im1 (Img im2) =
     (if shape (array im1) \<noteq> shape (array im2) then Inl GalSimIncompatibleValuesError
      else Inr ())"
| "check_image_consistency im1 (Scalar v) = Inr ()"

fun elementwise :: "('a \<Rightarrow> 'a \<Rightarrow> 'a) \<Rightarrow> 'a ndarray \<Rightarrow> 'a operand \<Rightarrow> 'a ndarray" where
  "elementwise f a (Img im2) = map2 (map2 f) a (array im2)"
| "elementwise f a (Scalar v) = map (map (\<lambda>p. f p v)) a"





text \<open>
  The in-place operators check the shapes, replace \<^verbatim>\<open>self._array\<close> and return
  \<^verbatim>\<open>self\<close>. They do not look at \<^verbatim>\<open>isconst\<close>.
\<close>

definition Image_iop :: "('a \<Rightarrow> 'a \<Rightarrow> 'a) \<Rightarrow> 'a Image \<Rightarrow> 'a operand \<Rightarrow> error + 'a Image" where
  "Image_iop f self other =
     (case check_image_consistency self other of
        Inl e \<Rightarrow> Inl e
      | Inr u \<Rightarrow> Inr (self\<lparr>array := elementwise f (array self) other\<rparr>))"

definition Image_iadd :: "('a::plus) Image \<Rightarrow> 'a operand \<Rightarrow> error + 'a Image" where
  "Image_iadd self other = Image_iop (+) self other"

definition Image_isub :: "('a::minus) Image \<Rightarrow> 'a operand \<Rightarrow> error + 'a Image" where
  "Image_isub self other = Image_iop (-) self other"

definition Image_imul :: "('a::times) Image \<Rightarrow> 'a operand \<Rightarrow> error + 'a Image" where
  "Image_imul self other = Image_iop (*) self other"

text \<open>
  \<^verbatim>\<open>getValue\<close> reads one pixel after the bounds checks. An index into a jax array is
  clipped to the array, so the read itself never raises.
\<close>

definition clip_index :: "nat \<Rightarrow> int \<Rightarrow> nat" where
  "clip_index n i = nat (max 0 (min (int n - 1) (if i < 0 then i + int n else i)))"

definition getValue :: "('a::zero) Image \<Rightarrow> int \<Rightarrow> int \<Rightarrow> error + 'a" where
  "getValue self px py =
     (if \<not> isDefined (bounds self) then Inl GalSimUndefinedBoundsError
      else if \<not> Bounds_includes_pos (bounds self) \<lparr>pos_x = px, pos_y = py\<rparr>
      then Inl GalSimBoundsError
      else
        let i = py - ymin (bounds self); j = px - xmin (bounds self)
        in case array self of
             [] \<Rightarrow> Inl IndexError
           | r # rs \<Rightarrow>
               (let row = (array self) ! clip_index (length (array self)) i
                in if row = [] then Inl IndexError
                   else Inr (row ! clip_index (length row) j)))"

text \<open>
  \<^verbatim>\<open>__getitem__\<close>: one \<^verbatim>\<open>BoundsI\<close> gives a sub-image, a position or a pair of
  coordinates gives a pixel value, anything else is a TypeError.
\<close>

datatype index =
    IdxBounds "int Bounds"
  | IdxPos "int Position"
  | IdxTuple int int
  | IdxOther
  | IdxXY int int
  | IdxTooMany

datatype 'a item = ItemImage "'a Image" | ItemValue 'a

fun Image_getitem :: "('a::zero) Image \<Rightarrow> index \<Rightarrow> error + 'a item" where
  "Image_getitem self (IdxBounds b) =
     (case subImage self b of Inl e \<Rightarrow> Inl e | Inr im \<Rightarrow> Inr (ItemImage im))"
| "Image_getitem self (IdxPos p) =
     (case getValue self (pos_x p) (pos_y p) of Inl e \<Rightarrow> Inl e | Inr v \<Rightarrow> Inr (ItemValue v))"
| "Image_getitem self (IdxTuple px py) =
     (case getValue self px py of Inl e \<Rightarrow> Inl e | Inr v \<Rightarrow> Inr (ItemValue v))"
| "Image_getitem self IdxOther = Inl TypeError"
| "Image_getitem self (IdxXY px py) =
     (case getValue self px py of Inl e \<Rightarrow> Inl e | Inr v \<Rightarrow> Inr (ItemValue v))"
| "Image_getitem self IdxTooMany = Inl TypeError"

section \<open>Photon accumulation (gsobject.py)\<close>

text \<open>
  What one call of \<^verbatim>\<open>_draw_phot_while_loop_shoot\<close> does to the photons: how many are
  shot (\<^verbatim>\<open>maxN\<close>), how many are kept (\<^verbatim>\<open>_num_keep = thisN\<close>) and the factor handed to
  \<^verbatim>\<open>scaleFlux\<close>, \<open>None\<close> when the multiplication is skipped. The photons themselves,
  the random source, the photon operators and the sensor are external collaborators.
\<close>

record shot =
  s_shot :: int
  s_thisN :: int
  s_scale :: "real option"

text \<open>
  The test \<^verbatim>\<open>jnp.abs(g - 1.0) + jnp.abs(thisN - Ntot) == 0\<close> and the factor
  \<^verbatim>\<open>g * thisN / Ntot\<close>, over the reals.
\<close>

definition flux_scale :: "real \<Rightarrow> int \<Rightarrow> int \<Rightarrow> real option" where
  "flux_scale g thisN Ntot =
     (if \<bar>g - 1\<bar> + \<bar>real_of_int (thisN - Ntot)\<bar> = 0 then None
      else Some (g * real_of_int thisN / real_of_int Ntot))"

definition draw_phot_while_loop_shoot :: "int \<Rightarrow> int \<Rightarrow> int \<Rightarrow> real \<Rightarrow> shot" where
  "draw_phot_while_loop_shoot maxN thisN Ntot g =
     \<lparr>s_shot = maxN, s_thisN = thisN, s_scale = flux_scale g thisN Ntot\<rparr>"

text \<open>
  \<^verbatim>\<open>_draw_phot_while_loop\<close>: the \<^verbatim>\<open>jax.lax.while_loop\<close> runs while \<^verbatim>\<open>Nleft > 0\<close>. With
  \<^verbatim>\<open>maxN\<close> not positive \<^verbatim>\<open>Nleft\<close> never decreases, so the result is an option. The trace pairs each
  iteration's \<^verbatim>\<open>Nleft\<close> on entry with what the iteration shot.
\<close>

partial_function (option) while_loop ::
  "real \<Rightarrow> int \<Rightarrow> int \<Rightarrow> int \<Rightarrow> (int \<times> shot) list \<Rightarrow> (int \<times> shot) list option" where
  "while_loop g Ntot maxN Nleft acc =
     (if Nleft > 0
      then while_loop g Ntot maxN (Nleft - min maxN Nleft)
             (acc @ [(Nleft, draw_phot_while_loop_shoot maxN (min maxN Nleft) Ntot g)])
      else Some acc)"

declare while_loop.simps [code]

definition draw_phot_while_loop :: "real \<Rightarrow> int \<Rightarrow> int \<Rightarrow> (int \<times> shot) list option" where
  "draw_phot_while_loop g Ntot maxN = while_loop g Ntot maxN Ntot []"

text \<open>
  The same loop as a total function, for reasoning: with \<^verbatim>\<open>maxN\<close> positive \<^verbatim>\<open>Nleft\<close>
  decreases in every iteration, and this is the trace the loop returns.
\<close>

function loop_trace :: "real \<Rightarrow> int \<Rightarrow> int \<Rightarrow> int \<Rightarrow> (int \<times> shot) list" where
  "loop_trace g Ntot maxN Nleft =
     (if Nleft > 0 \<and> maxN > 0
      then (Nleft, draw_phot_while_loop_shoot maxN (min maxN Nleft) Ntot g)
             # loop_trace g Ntot maxN (Nleft - min maxN Nleft)
      else [])"
  by pat_completeness auto
termination
  by (relation "measure (\<lambda>(g, Ntot, maxN, Nleft). nat Nleft)") auto

declare loop_trace.simps [simp del]

text \<open>
  The part of \<^verbatim>\<open>drawPhot\<close> around the loop. \<open>g0\<close> and \<open>Ntot\<close> are what
  \<^verbatim>\<open>_calculate_nphotons\<close> returned (core/draw.py); \<open>pa_size\<close> is the module-level
  \<^verbatim>\<open>_JAX_GALSIM_PHOTON_ARRAY_SIZE\<close>, and \<^verbatim>\<open>pa_size or maxN\<close> is Python's \<^verbatim>\<open>or\<close>.
  The result is the list of shots, in order.
\<close>

definition drawPhot_g :: "real \<Rightarrow> real \<Rightarrow> real" where
  "drawPhot_g g0 gain = (if gain \<noteq> 1 then g0 / gain else g0)"

definition drawPhot_maxN :: "int option \<Rightarrow> int option \<Rightarrow> int option" where
  "drawPhot_maxN maxN pa_size =
     (case (maxN, pa_size) of
        (Some m, Some s) \<Rightarrow> Some (min m s)
      | (m, Some s) \<Rightarrow> (if s \<noteq> 0 then Some s else m)
      | (m, None) \<Rightarrow> m)"

definition drawPhot :: "real \<Rightarrow> real \<Rightarrow> int \<Rightarrow> int option \<Rightarrow> int option \<Rightarrow> shot list option" where
  "drawPhot g0 gain Ntot maxN pa_size =
     (let g = drawPhot_g g0 gain
      in case drawPhot_maxN maxN pa_size of
           None \<Rightarrow> Some [draw_phot_while_loop_shoot Ntot Ntot Ntot g]
         | Some m \<Rightarrow> map_option (map snd) (draw_phot_while_loop g Ntot m))"

text \<open>
  The factor in the words of the specification's sentence, for comparison: the gain
  times \<open>thisN / Ntot\<close>, the multiplication skipped when the gain is one and the chunk
  is the only one.
\<close>

definition spec_flux_scale :: "real \<Rightarrow> int \<Rightarrow> int \<Rightarrow> nat \<Rightarrow> real option" where
  "spec_flux_scale gain thisN Ntot nchunks =
     (if gain = 1 \<and> nchunks = 1 then None
      else Some (gain * real_of_int thisN / real_of_int Ntot))"

section \<open>Example objects\<close>

text \<open>
  The library's default accuracy parameters, and a stand-in profile given by its class
  name, flux, centroid and the flags for hard edges and real-space analyticity.
\<close>

definition default_gsparams :: GSParams where
  "default_gsparams =
     \<lparr>minimum_fft_size = 128, maximum_fft_size = 8192,
      folding_threshold = 5 / 1000, kvalue_accuracy = 1 / 100000\<rparr>"

definition stand_in :: "string \<Rightarrow> real \<Rightarrow> real \<Rightarrow> real \<Rightarrow> bool \<Rightarrow> bool \<Rightarrow> GSObject" where
  "stand_in name f cx cy hard analytic =
     Leaf \<lparr>p_class = name, p_flux = f, p_centroid = \<lparr>pos_x = cx, pos_y = cy\<rparr>,
           p_has_hard_edges = hard, p_is_analytic_x = analytic, p_is_analytic_k = True,
           p_gsparams = default_gsparams\<rparr>"

section \<open>The two states of a bounds\<close>

text \<open>
  What the constructors establish on Python numbers: a bounds flagged defined has ordered
  extrema; a bounds flagged undefined is the all-zero one of the no-argument constructor
  or keeps the inverted extrema it was given.
\<close>

definition ordered :: "('a::linorder) Bounds \<Rightarrow> bool" where
  "ordered b = (xmin b \<le> xmax b \<and> ymin b \<le> ymax b)"

definition two_states :: "('a::{linorder,zero}) Bounds \<Rightarrow> bool" where
  "two_states b =
     (if isDefined b then ordered b else (b = Bounds_empty \<or> xmin b > xmax b \<or> ymin b > ymax b))"

section \<open>The image invariant\<close>


section \<open>Properties of Bounds\<close>

lemma py_int_of_int [simp]: "py_int (of_int i) = i"
  by (simp add: py_int_def)

lemma BoundsI_init_ints:
  "BoundsI_init (Args4 (PyNum (of_int a)) (PyNum (of_int b)) (PyNum (of_int c)) (PyNum (of_int d)))
     = Inr (BoundsI4 a b c d)"
  by (simp add: BoundsI_init_def check_valid_def not_integral_def cast_to_int_def BoundsI4_def)

lemma BoundsI_init_jax:
  "BoundsI_init (Args4 (JaxArr (of_int a)) (JaxArr (of_int b)) (JaxArr (of_int c)) (JaxArr (of_int d)))
     = Inr (Bounds_of_jax a b c d)"
  by (simp add: BoundsI_init_def check_valid_def cast_to_int_def Bounds_of_jax_def)

lemma BoundsD_init_jax:
  "BoundsD_init (Args4 (JaxArr a) (JaxArr b) (JaxArr c) (JaxArr d)) = Inr (Bounds_of_jax a b c d)"
  by (simp add: BoundsD_init_def check_valid_def cast_to_float_def Bounds_of_jax_def)

lemma BoundsI_init_empty: "BoundsI_init Args0 = Inr Bounds_empty"
  by (simp add: BoundsI_init_def check_valid_def not_integral_def cast_to_int_def
      Bounds_empty_def py_int_def)

lemma BoundsD_init_empty: "BoundsD_init Args0 = Inr Bounds_empty"
  by (simp add: BoundsD_init_def check_valid_def cast_to_float_def Bounds_empty_def)

lemma check_valid_py:
  assumes "is_py a" "is_py b" "is_py c" "is_py d"
  shows "check_valid \<lparr>raw_isdefined = True, raw_xmin = a, raw_xmax = b, raw_ymin = c, raw_ymax = d\<rparr>
           = \<lparr>raw_isdefined = \<not> (num_val a > num_val b \<or> num_val c > num_val d),
              raw_xmin = a, raw_xmax = b, raw_ymin = c, raw_ymax = d\<rparr>"
  using assms by (simp add: check_valid_def)

lemma parse_args_py:
  assumes "args_py args" and "parse_args args = Inr r"
  shows "is_py (raw_xmin r) \<and> is_py (raw_xmax r) \<and> is_py (raw_ymin r) \<and> is_py (raw_ymax r)"
  using assms by (cases args) (auto simp: check_valid_def split: if_splits)

lemma parse_args_states:
  assumes "args_py args" and "parse_args args = Inr r"
  shows "if raw_isdefined r
         then num_val (raw_xmin r) \<le> num_val (raw_xmax r) \<and> num_val (raw_ymin r) \<le> num_val (raw_ymax r)
         else (args = Args0 \<and> num_val (raw_xmin r) = 0 \<and> num_val (raw_xmax r) = 0
                 \<and> num_val (raw_ymin r) = 0 \<and> num_val (raw_ymax r) = 0)
              \<or> num_val (raw_xmin r) > num_val (raw_xmax r)
              \<or> num_val (raw_ymin r) > num_val (raw_ymax r)"
  using assms
  by (cases args) (auto simp: check_valid_def min_le_iff_disj le_max_iff_disj split: if_splits)

lemma integral_order:
  assumes "\<not> not_integral v" and "\<not> not_integral w"
  shows "(cast_to_int v \<le> cast_to_int w) = (num_val v \<le> num_val w)"
    and "(cast_to_int v < cast_to_int w) = (num_val v < num_val w)"
proof -
  have v: "num_val v = of_int (cast_to_int v)" and w: "num_val w = of_int (cast_to_int w)"
    using assms by (simp_all add: not_integral_def cast_to_int_def)
  show "(cast_to_int v \<le> cast_to_int w) = (num_val v \<le> num_val w)"
    by (subst v, subst w) simp
  show "(cast_to_int v < cast_to_int w) = (num_val v < num_val w)"
    by (subst v, subst w) simp
qed

lemma integral_zero:
  assumes "num_val v = 0"
  shows "cast_to_int v = 0"
  using assms by (simp add: cast_to_int_def py_int_def)

lemma BoundsD_init_states:
  assumes "args_py args" and "BoundsD_init args = Inr b"
  shows "two_states b"
proof -
  obtain r where r: "parse_args args = Inr r"
    and b: "b = \<lparr>isdefined = raw_isdefined r,
               xmin = cast_to_float (raw_xmin r), xmax = cast_to_float (raw_xmax r),
               ymin = cast_to_float (raw_ymin r), ymax = cast_to_float (raw_ymax r)\<rparr>"
    using assms(2) by (auto simp: BoundsD_init_def split: sum.splits)
  from parse_args_states [OF assms(1) r] show ?thesis
    unfolding b two_states_def ordered_def isDefined_def Bounds_empty_def cast_to_float_def
    by (auto split: if_splits)
qed

lemma BoundsI_init_states:
  assumes "args_py args" and "BoundsI_init args = Inr b"
  shows "two_states b"
proof -
  obtain r where r: "parse_args args = Inr r"
    and b: "b = \<lparr>isdefined = raw_isdefined r,
               xmin = cast_to_int (raw_xmin r), xmax = cast_to_int (raw_xmax r),
               ymin = cast_to_int (raw_ymin r), ymax = cast_to_int (raw_ymax r)\<rparr>"
    and ok: "\<not> (is_py (raw_xmin r) \<and> is_py (raw_xmax r) \<and> is_py (raw_ymin r) \<and> is_py (raw_ymax r)
             \<and> (not_integral (raw_xmin r) \<or> not_integral (raw_xmax r)
                  \<or> not_integral (raw_ymin r) \<or> not_integral (raw_ymax r)))"
    using assms(2) by (auto simp: BoundsI_init_def split: sum.splits if_splits)
  from ok parse_args_py [OF assms(1) r]
  have int: "\<not> not_integral (raw_xmin r)" "\<not> not_integral (raw_xmax r)"
    "\<not> not_integral (raw_ymin r)" "\<not> not_integral (raw_ymax r)"
    by auto
  note ord = integral_order [OF int(1) int(2)] integral_order [OF int(3) int(4)]
    integral_order [OF int(2) int(1)] integral_order [OF int(4) int(3)]
  from parse_args_states [OF assms(1) r] show ?thesis
    unfolding b two_states_def ordered_def isDefined_def Bounds_empty_def
    by (auto simp: ord integral_zero split: if_splits)
qed

text \<open>
  C5, as stated, fails: \<^verbatim>\<open>BoundsI(5, 1, 0, 0)\<close> is flagged undefined, but \<^verbatim>\<open>_parse_args\<close>
  only clears the flag, so its fields keep 5, 1, 0, 0 and it is not the all-zero value
  of the no-argument constructor.
\<close>

theorem BoundsI_inverted_keeps_extrema:
  "BoundsI_init (Args4 (PyNum 5) (PyNum 1) (PyNum 0) (PyNum 0))
     = Inr \<lparr>isdefined = False, xmin = 5, xmax = 1, ymin = 0, ymax = 0\<rparr>
   \<and> \<lparr>isdefined = False, xmin = 5, xmax = 1, ymin = 0, ymax = (0::int)\<rparr> \<noteq> Bounds_empty
   \<and> xmin \<lparr>isdefined = False, xmin = 5, xmax = 1, ymin = 0, ymax = (0::int)\<rparr> \<noteq> 0"
  by (simp add: BoundsI_init_def check_valid_def not_integral_def cast_to_int_def py_int_def
      Bounds_empty_def)

text \<open>
  C5 (amended). Every \<^verbatim>\<open>BoundsI\<close> and \<^verbatim>\<open>BoundsD\<close> constructed from finite Python
  numbers (no NaN, no infinity) is in one of two states: flagged defined with
  \<open>xmin \<le> xmax\<close> and \<open>ymin \<le> ymax\<close>, or flagged undefined, and then either the
  all-zero value of the no-argument constructor or a value that keeps inverted extrema. The no-argument constructor gives the all-zero undefined
  value, and construction from four finite Python numbers with \<open>xmin > xmax\<close> or
  \<open>ymin > ymax\<close> gives a value flagged undefined whose fields are the four numbers given.
\<close>

theorem Bounds_init_two_states:
  fixes x1 x2 y1 y2 :: real and i1 i2 j1 j2 :: int
  assumes "args_py args" and "x1 > x2 \<or> y1 > y2" and "i1 > i2 \<or> j1 > j2"
  shows "(\<forall>b. BoundsI_init args = Inr b \<longrightarrow> two_states b)
       \<and> (\<forall>b. BoundsD_init args = Inr b \<longrightarrow> two_states b)
       \<and> BoundsI_init Args0 = Inr Bounds_empty
       \<and> BoundsD_init Args0 = Inr Bounds_empty
       \<and> BoundsD_init (Args4 (PyNum x1) (PyNum x2) (PyNum y1) (PyNum y2))
           = Inr \<lparr>isdefined = False, xmin = x1, xmax = x2, ymin = y1, ymax = y2\<rparr>
       \<and> BoundsI_init (Args4 (PyNum (of_int i1)) (PyNum (of_int i2))
                              (PyNum (of_int j1)) (PyNum (of_int j2)))
           = Inr \<lparr>isdefined = False, xmin = i1, xmax = i2, ymin = j1, ymax = j2\<rparr>"
proof -
  have "BoundsD_init (Args4 (PyNum x1) (PyNum x2) (PyNum y1) (PyNum y2))
           = Inr \<lparr>isdefined = False, xmin = x1, xmax = x2, ymin = y1, ymax = y2\<rparr>"
    using assms(2) by (auto simp: BoundsD_init_def check_valid_def cast_to_float_def)
  moreover have "BoundsI_init (Args4 (PyNum (of_int i1)) (PyNum (of_int i2))
                              (PyNum (of_int j1)) (PyNum (of_int j2)))
           = Inr \<lparr>isdefined = False, xmin = i1, xmax = i2, ymin = j1, ymax = j2\<rparr>"
    using assms(3) by (auto simp: BoundsI_init_ints BoundsI4_def)
  ultimately show ?thesis
    using BoundsI_init_states [OF assms(1)] BoundsD_init_states [OF assms(1)]
      BoundsI_init_empty BoundsD_init_empty
    by blast
qed

theorem Bounds_init_two_states_witness:
  "args_py (Args4 (PyNum (5::real)) (PyNum 1) (PyNum 0) (PyNum 0))
   \<and> BoundsI_init (Args4 (PyNum 5) (PyNum 1) (PyNum 0) (PyNum 0))
       = Inr \<lparr>isdefined = False, xmin = 5, xmax = 1, ymin = 0, ymax = 0\<rparr>
   \<and> two_states \<lparr>isdefined = False, xmin = 5, xmax = 1, ymin = 0, ymax = (0::int)\<rparr>
   \<and> BoundsD_init (Args4 (PyNum 5) (PyNum 1) (PyNum 0) (PyNum 0))
       = Inr \<lparr>isdefined = False, xmin = 5, xmax = 1, ymin = 0, ymax = 0\<rparr>
   \<and> two_states \<lparr>isdefined = False, xmin = 5, xmax = 1, ymin = 0, ymax = (0::real)\<rparr>"
proof -
  have a: "args_py (Args4 (PyNum (5::real)) (PyNum 1) (PyNum 0) (PyNum 0))" by simp
  have r: "(5::real) > 1 \<or> (0::real) > 0" by simp
  have i: "(5::int) > 1 \<or> (0::int) > 0" by simp
  from Bounds_init_two_states [OF a r i] a show ?thesis by simp
qed

text \<open>
  C6. For an undefined bounds \<open>u\<close> and any bounds \<open>b\<close> of the same class, \<open>u & b\<close> and
  \<open>b & u\<close> are the undefined bounds of the no-argument constructor, \<open>b + u\<close> is
  \<open>b\<close> itself, and \<open>u + b\<close> is equal to \<open>b\<close> (it is \<open>b\<close> itself when \<open>b\<close> is
  defined, and \<open>u\<close>, which like \<open>b\<close> is undefined, otherwise).
\<close>

theorem undefined_absorbs_and_is_identity:
  fixes u b :: "('a::{linorder,zero}) Bounds"
  assumes "\<not> isDefined u"
  shows "Bounds_and u b = Bounds_empty \<and> Bounds_and b u = Bounds_empty
       \<and> \<not> isDefined (Bounds_and u b) \<and> \<not> isDefined (Bounds_and b u)
       \<and> Bounds_add b u = b
       \<and> Bounds_eq (Bounds_add u b) b
       \<and> (isDefined b \<longrightarrow> Bounds_add u b = b)"
proof -
  have e: "\<not> isDefined (Bounds_empty :: 'a Bounds)"
    by (simp add: isDefined_def Bounds_empty_def)
  have 1: "Bounds_and u b = Bounds_empty" "Bounds_and b u = Bounds_empty"
    using assms by (simp_all add: Bounds_and_def)
  have 2: "Bounds_add b u = b"
    using assms by (simp add: Bounds_add_def)
  have 3: "Bounds_add u b = (if isDefined b then b else u)"
    using assms by (simp add: Bounds_add_def)
  have 4: "Bounds_eq (Bounds_add u b) b"
    using assms by (simp add: 3 Bounds_eq_def tree_flatten_def)
  show ?thesis using e 1 2 3 4 by simp
qed

theorem undefined_absorbs_and_is_identity_witness:
  "\<not> isDefined (Bounds_empty :: int Bounds)
   \<and> Bounds_and Bounds_empty (BoundsI4 1 5 1 5) = Bounds_empty
   \<and> Bounds_and (BoundsI4 1 5 1 5) Bounds_empty = Bounds_empty
   \<and> Bounds_add (BoundsI4 1 5 1 5) Bounds_empty = BoundsI4 1 5 1 5
   \<and> Bounds_add Bounds_empty (BoundsI4 1 5 1 5) = BoundsI4 1 5 1 5"
proof -
  have u: "\<not> isDefined (Bounds_empty :: int Bounds)"
    by (simp add: isDefined_def Bounds_empty_def)
  have d: "isDefined (BoundsI4 1 5 1 5)"
    by (simp add: isDefined_def BoundsI4_def)
  from undefined_absorbs_and_is_identity [OF u, of "BoundsI4 1 5 1 5"] u d
  show ?thesis by simp
qed

section \<open>Properties of composite objects\<close>


lemma flux_withGSParams: "flux (withGSParams obj new) = flux obj"
proof (induction obj arbitrary: new)
  case (Leaf p)
  then show ?case by simp
next
  case (Convolution objs rs g pg)
  have "map flux (map (\<lambda>obj. withGSParams obj n) objs) = map flux objs" for n
    using Convolution.IH by (induction objs) auto
  then show ?case by (simp add: Let_def del: map_map)
next
  case (Deconvolution obj g pg)
  then show ?case by (simp add: Let_def)
qed

lemma centroid_withGSParams: "centroid (withGSParams obj new) = centroid obj"
proof (induction obj arbitrary: new)
  case (Leaf p)
  then show ?case by simp
next
  case (Convolution objs rs g pg)
  have "map centroid (map (\<lambda>obj. withGSParams obj n) objs) = map centroid objs" for n
    using Convolution.IH by (induction objs) auto
  then show ?case by (simp add: Let_def del: map_map)
next
  case (Deconvolution obj g pg)
  then show ?case by (simp add: Let_def)
qed

lemma withGSParams_same: "withGSParams obj (Some (gsparams obj)) = obj"
  by (cases obj) simp_all

lemma GSObject_eq_iff: "GSObject_eq a b = (a = b)"
proof (induction a b rule: GSObject_eq.induct)
  case (2 objs rs g pg objs2 rs2 g2 pg2)
  have "list_all2 GSObject_eq objs objs2 = list_all2 (=) objs objs2"
    by (rule list.rel_cong) (auto simp: "2.IH")
  then show ?case by (simp add: list_all2_eq)
qed simp_all

lemma not_own_double_deconvolution: "obj \<noteq> Deconvolution (Deconvolution obj g p) g' p'"
proof
  assume "obj = Deconvolution (Deconvolution obj g p) g' p'"
  then have "size obj = size (Deconvolution (Deconvolution obj g p) g' p')" by simp
  then show False by simp
qed

lemma stand_in_simps [simp]:
  "flux (stand_in name f cx cy hard analytic) = f"
  "centroid (stand_in name f cx cy hard analytic) = Inr \<lparr>pos_x = cx, pos_y = cy\<rparr>"
  "has_hard_edges (stand_in name f cx cy hard analytic) = hard"
  "is_analytic_x (stand_in name f cx cy hard analytic) = Inr analytic"
  "gsparams (stand_in name f cx cy hard analytic) = default_gsparams"
  "withGSParams (stand_in name f cx cy hard analytic) (Some default_gsparams)
     = stand_in name f cx cy hard analytic"
  by (simp_all add: stand_in_def)

lemma Deconvolve_default:
  "Deconvolve obj None True = Deconvolution obj (gsparams obj) True"
  by (simp add: Deconvolve_def Deconvolution_init_def GSParams_check_def withGSParams_same)

lemma size_withGSParams: "size (withGSParams obj new) = size obj"
proof (induction obj arbitrary: new)
  case (Leaf p)
  then show ?case by simp
next
  case (Convolution objs rs g pg)
  have "size_list size (map (\<lambda>obj. withGSParams obj n) objs) = size_list size objs" for n
    using Convolution.IH by (induction objs) auto
  then show ?case by (simp add: Let_def)
next
  case (Deconvolution obj g pg)
  then show ?case by (simp add: Let_def)
qed

lemma size_Deconvolve: "size (Deconvolve obj gsp pg) = size obj + 1"
  by (simp add: Deconvolve_def Deconvolution_init_def Let_def size_withGSParams)

lemma Deconvolve_orig_obj:
  "orig_obj (Deconvolve obj gsp pg) =
     Inr (if pg then withGSParams obj (Some (GSParams_check gsp (gsparams obj))) else obj)"
  by (simp add: Deconvolve_def Deconvolution_init_def Let_def)

text \<open>
  C1, as stated, fails: \<^verbatim>\<open>Deconvolution.__init__\<close> wraps its argument and never unwraps
  a \<^verbatim>\<open>Deconvolution\<close>, and \<^verbatim>\<open>Deconvolution.__eq__\<close> holds only between two
  \<^verbatim>\<open>Deconvolution\<close> objects with equal children. For a Gaussian stand-in,
  \<^verbatim>\<open>Deconvolve(Deconvolve(obj)) == obj\<close> is false.
\<close>

theorem Deconvolve_twice_not_equal_example:
  "\<not> GSObject_eq (Deconvolve (Deconvolve (stand_in ''Gaussian'' 1 0 0 False True) None True) None True)
                  (stand_in ''Gaussian'' 1 0 0 False True)"
  by (simp add: Deconvolve_default stand_in_def)

text \<open>
  C1 (amended). For every GSObject \<open>obj\<close>, \<^verbatim>\<open>Deconvolve(Deconvolve(obj))\<close> is never
  equal to \<open>obj\<close> under the structural equality of GSObjects, whatever gsparams and
  propagation flags are passed: it is a \<^verbatim>\<open>Deconvolution\<close> whose \<^verbatim>\<open>orig_obj\<close> is
  \<^verbatim>\<open>Deconvolve(obj)\<close>, whose \<^verbatim>\<open>orig_obj\<close> in turn is \<open>obj\<close> (with explicit gsparams
  \<open>g\<close>, \<open>obj.withGSParams(g)\<close>), and its flux is \<open>1 / (1 / obj.flux)\<close>.
\<close>

theorem Deconvolve_twice:
  "\<not> GSObject_eq (Deconvolve (Deconvolve obj gs1 p1) gs2 p2) obj
   \<and> \<not> GSObject_eq obj (Deconvolve (Deconvolve obj gs1 p1) gs2 p2)
   \<and> orig_obj (Deconvolve (Deconvolve obj None True) None True) = Inr (Deconvolve obj None True)
   \<and> orig_obj (Deconvolve obj None True) = Inr obj
   \<and> orig_obj (Deconvolve obj (Some g) True) = Inr (withGSParams obj (Some g))
   \<and> flux (Deconvolve (Deconvolve obj gs1 p1) gs2 p2) = 1 / (1 / flux obj)"
proof -
  have "size (Deconvolve (Deconvolve obj gs1 p1) gs2 p2) \<noteq> size obj"
    by (simp add: size_Deconvolve)
  then have ne: "Deconvolve (Deconvolve obj gs1 p1) gs2 p2 \<noteq> obj"
    by (metis (no_types))
  have fl: "flux (Deconvolve x gsp pg) = 1 / flux x" for x gsp pg
    by (simp add: Deconvolve_def Deconvolution_init_def Let_def flux_withGSParams)
  show ?thesis
    using ne
    by (auto simp: GSObject_eq_iff Deconvolve_default Deconvolve_orig_obj fl GSParams_check_def)
qed

theorem Deconvolve_twice_witness:
  "orig_obj (Deconvolve (Deconvolve (stand_in ''Gaussian'' 2 0 0 False True) None True) None True)
     = Inr (Deconvolve (stand_in ''Gaussian'' 2 0 0 False True) None True)
   \<and> orig_obj (Deconvolve (stand_in ''Gaussian'' 2 0 0 False True) None True)
     = Inr (stand_in ''Gaussian'' 2 0 0 False True)
   \<and> flux (Deconvolve (Deconvolve (stand_in ''Gaussian'' 2 0 0 False True) None True) None True) = 2"
  using Deconvolve_twice [of "stand_in ''Gaussian'' 2 0 0 False True" None True None True]
  by simp

lemma find_not_analytic_x_False:
  "(find_not_analytic_x objs = Inr False) = list_all (\<lambda>obj. is_analytic_x obj = Inr True) objs"
  by (induction objs) (auto split: sum.splits)

lemma find_not_analytic_x_True:
  "find_not_analytic_x objs = Inr True \<Longrightarrow> \<exists>obj \<in> set objs. is_analytic_x obj = Inr False"
  by (induction objs) (auto split: sum.splits if_splits)

lemma GSParams_combine_nonempty:
  "objs \<noteq> [] \<Longrightarrow> \<exists>g. GSParams_combine (map gsparams objs) = Inr g"
  by (cases objs) simp_all

lemma gsparams_choice:
  assumes "objs \<noteq> [] \<or> gsp \<noteq> None"
  shows "\<exists>g. (case gsp of None \<Rightarrow> GSParams_combine (map gsparams objs)
                | Some g \<Rightarrow> Inr (GSParams_check (Some g) g)) = Inr g"
  using assms GSParams_combine_nonempty [of objs] by (cases gsp) auto

lemma GSParams_merge_idem [simp]: "GSParams_merge g g = g"
  by (simp add: GSParams_merge_def)

lemma GSParams_check_Some [simp]: "GSParams_check (Some g) d = g"
  by (simp add: GSParams_check_def)

lemma GSParams_check_None [simp]: "GSParams_check None d = d"
  by (simp add: GSParams_check_def)

text \<open>
  C3, as stated, fails: with three children and \<^verbatim>\<open>real_space=True\<close> the constructor
  warns, switches to the DFT method and returns the Convolution.
\<close>

theorem real_space_three_children_example:
  "Convolution_init
     (SingleList [stand_in ''Gaussian'' 1 0 0 False True, stand_in ''Gaussian'' 2 0 0 False True,
                  stand_in ''Gaussian'' 3 0 0 False True])
     (Some True) None True
   = Inr (Convolution [stand_in ''Gaussian'' 1 0 0 False True, stand_in ''Gaussian'' 2 0 0 False True,
                       stand_in ''Gaussian'' 3 0 0 False True] False default_gsparams True,
          [WarnMoreThanTwo])"
  by (simp add: Convolution_init_def)

text \<open>
  C3 (amended). Constructing a Convolution with \<^verbatim>\<open>real_space=True\<close> from at most two
  children that are all analytic in real space fails with the not-implemented error, in
  the constructor. With more than two children, or when the loop over at most two
  children finds one that is not analytic in real space, the constructor emits a warning
  and returns a Convolution of as many children with \<^verbatim>\<open>real_space\<close> false.
\<close>

theorem Convolution_real_space_True:
  assumes "unpack_args cargs = Inr objs"
  shows "(length objs \<le> 2 \<and> list_all (\<lambda>obj. is_analytic_x obj = Inr True) objs
            \<longrightarrow> Convolution_init cargs (Some True) gsp pg = Inl NotImplementedError)
       \<and> (length objs > 2
            \<longrightarrow> (\<exists>g kept. Convolution_init cargs (Some True) gsp pg
                     = Inr (Convolution kept False g pg, [WarnMoreThanTwo])
                   \<and> length kept = length objs))
       \<and> (length objs \<le> 2 \<and> find_not_analytic_x objs = Inr True
            \<longrightarrow> (\<exists>g kept. Convolution_init cargs (Some True) gsp pg
                     = Inr (Convolution kept False g pg, [WarnNotAnalyticX])
                   \<and> length kept = length objs))"
proof (intro conjI impI)
  assume "length objs \<le> 2 \<and> list_all (\<lambda>obj. is_analytic_x obj = Inr True) objs"
  then have "find_not_analytic_x objs = Inr False" and "\<not> length objs > 2"
    by (simp_all add: find_not_analytic_x_False)
  then show "Convolution_init cargs (Some True) gsp pg = Inl NotImplementedError"
    using assms by (simp add: Convolution_init_def)
next
  assume len: "length objs > 2"
  then have "objs \<noteq> []" by auto
  then obtain g where g: "(case gsp of None \<Rightarrow> GSParams_combine (map gsparams objs)
                | Some g \<Rightarrow> Inr (GSParams_check (Some g) g)) = Inr g"
    using gsparams_choice [of objs gsp] by blast
  show "\<exists>g kept. Convolution_init cargs (Some True) gsp pg
                     = Inr (Convolution kept False g pg, [WarnMoreThanTwo])
                   \<and> length kept = length objs"
    using assms len g by (simp add: Convolution_init_def)
next
  assume a: "length objs \<le> 2 \<and> find_not_analytic_x objs = Inr True"
  then have "objs \<noteq> []" by auto
  then obtain g where g: "(case gsp of None \<Rightarrow> GSParams_combine (map gsparams objs)
                | Some g \<Rightarrow> Inr (GSParams_check (Some g) g)) = Inr g"
    using gsparams_choice [of objs gsp] by blast
  show "\<exists>g kept. Convolution_init cargs (Some True) gsp pg
                     = Inr (Convolution kept False g pg, [WarnNotAnalyticX])
                   \<and> length kept = length objs"
    using assms a g by (simp add: Convolution_init_def)
qed

theorem Convolution_real_space_True_witness:
  "unpack_args (SingleList [stand_in ''Box'' 1 0 0 True True, stand_in ''Gaussian'' 2 0 0 False True])
     = Inr [stand_in ''Box'' 1 0 0 True True, stand_in ''Gaussian'' 2 0 0 False True]
   \<and> Convolution_init
       (SingleList [stand_in ''Box'' 1 0 0 True True, stand_in ''Gaussian'' 2 0 0 False True])
       (Some True) None True
     = Inl NotImplementedError
   \<and> find_not_analytic_x [stand_in ''Box'' 1 0 0 True True, stand_in ''Spline'' 2 0 0 False False]
     = Inr True
   \<and> Convolution_init
       (SingleList [stand_in ''Box'' 1 0 0 True True, stand_in ''Spline'' 2 0 0 False False])
       (Some True) None True
     = Inr (Convolution [stand_in ''Box'' 1 0 0 True True, stand_in ''Spline'' 2 0 0 False False]
              False default_gsparams True, [WarnNotAnalyticX])"
proof -
  have u: "unpack_args (SingleList [stand_in ''Box'' 1 0 0 True True, stand_in ''Gaussian'' 2 0 0 False True])
     = Inr [stand_in ''Box'' 1 0 0 True True, stand_in ''Gaussian'' 2 0 0 False True]"
    by simp
  have v: "unpack_args (SingleList [stand_in ''Box'' 1 0 0 True True, stand_in ''Spline'' 2 0 0 False False])
     = Inr [stand_in ''Box'' 1 0 0 True True, stand_in ''Spline'' 2 0 0 False False]"
    by simp
  have f: "find_not_analytic_x [stand_in ''Box'' 1 0 0 True True, stand_in ''Spline'' 2 0 0 False False]
     = Inr True"
    by simp
  have i: "Convolution_init
       (SingleList [stand_in ''Box'' 1 0 0 True True, stand_in ''Spline'' 2 0 0 False False])
       (Some True) None True
     = Inr (Convolution [stand_in ''Box'' 1 0 0 True True, stand_in ''Spline'' 2 0 0 False False]
              False default_gsparams True, [WarnNotAnalyticX])"
    by (simp add: Convolution_init_def)
  from Convolution_real_space_True [OF u, of None True]
    Convolution_real_space_True [OF v, of None True] u f i
  show ?thesis by simp
qed

lemma map_flux_withGSParams:
  "map flux (map (\<lambda>obj. withGSParams obj new) objs) = map flux objs"
  by (simp add: flux_withGSParams)

lemma map_centroid_withGSParams:
  "map centroid (map (\<lambda>obj. withGSParams obj new) objs) = map centroid objs"
  by (simp add: centroid_withGSParams)

lemma Convolution_init_Inr:
  assumes "Convolution_init cargs rs gsp pg = Inr (c, w)"
  obtains objs g where "unpack_args cargs = Inr objs"
    and "c = Convolution (if pg then map (\<lambda>obj. withGSParams obj (Some g)) objs else objs) False g pg"
  using assms
  by (auto simp: Convolution_init_def Let_def split: sum.splits if_splits prod.splits)

lemma foldl_pos_add_x: "pos_x (foldl pos_add c cs) = pos_x c + sum_list (map pos_x cs)"
  by (induction cs arbitrary: c) (simp_all add: pos_add_def)

lemma foldl_pos_add_y: "pos_y (foldl pos_add c cs) = pos_y c + sum_list (map pos_y cs)"
  by (induction cs arbitrary: c) (simp_all add: pos_add_def)

lemma collect_length: "collect rs = Inr vs \<Longrightarrow> length vs = length rs"
proof (induction rs arbitrary: vs)
  case Nil
  then show ?case by simp
next
  case (Cons r rs)
  then show ?case by (cases r) (auto split: sum.splits)
qed

lemma Convolution_init_False_succeeds:
  assumes "objs \<noteq> []"
  shows "\<exists>c w. Convolution_init (SingleList objs) (Some False) gsp pg = Inr (c, w)"
proof -
  obtain g where g: "(case gsp of None \<Rightarrow> GSParams_combine (map gsparams objs)
                | Some g \<Rightarrow> Inr (GSParams_check (Some g) g)) = Inr g"
    using gsparams_choice [of objs gsp] assms by blast
  then show ?thesis by (simp add: Convolution_init_def Let_def)
qed

text \<open>
  C7, as stated, fails: for two children that both have hard edges and are analytic in
  real space, \<^verbatim>\<open>Convolution([a, b])\<close> sets \<^verbatim>\<open>real_space\<close> to true and raises the
  not-implemented error, so there is no composite whose flux or centroid could be read.
\<close>

theorem Convolution_two_hard_edges_example:
  "Convolution_init
     (SingleList [stand_in ''Box'' 2 0 0 True True, stand_in ''Pixel'' 3 0 0 True True])
     None None True
   = Inl NotImplementedError"
  by (simp add: Convolution_init_def)

text \<open>
  C7 (amended). For GSObjects \<open>a\<close> and \<open>b\<close> with centroids \<open>ca\<close> and \<open>cb\<close>, the
  constructor builds \<^verbatim>\<open>Convolution([a, b])\<close> with \<^verbatim>\<open>real_space=False\<close>, and by default
  unless both children have hard edges; when both have hard edges and are analytic in
  real space the default call raises the not-implemented error, and when both have hard
  edges and one is found not analytic it returns after a warning. Every Convolution
  the constructor returns for \<open>[a, b]\<close> has flux \<open>a.flux * b.flux\<close> and centroid
  \<open>ca + cb\<close>. More generally a Convolution returned for a non-empty list has the product
  of the children's fluxes as its flux and the component-wise sum of their centroids as
  its centroid.
\<close>

theorem Convolution_flux_centroid:
  assumes "centroid a = Inr ca" and "centroid b = Inr cb"
    and "collect (map centroid objs) = Inr cs"
  shows "(\<exists>c w. Convolution_init (SingleList [a, b]) (Some False) gsp pg = Inr (c, w))
       \<and> (has_hard_edges a \<and> has_hard_edges b
            \<or> (\<exists>c w. Convolution_init (SingleList [a, b]) None gsp pg = Inr (c, w)))
       \<and> (has_hard_edges a \<and> has_hard_edges b \<and> find_not_analytic_x [a, b] = Inr False
            \<longrightarrow> Convolution_init (SingleList [a, b]) None gsp pg = Inl NotImplementedError)
       \<and> (has_hard_edges a \<and> has_hard_edges b \<and> find_not_analytic_x [a, b] = Inr True
            \<longrightarrow> (\<exists>c. Convolution_init (SingleList [a, b]) None gsp pg
                       = Inr (c, [WarnNotAnalyticX])))
       \<and> (\<forall>rs c w. Convolution_init (SingleList [a, b]) rs gsp pg = Inr (c, w)
             \<longrightarrow> flux c = flux a * flux b \<and> centroid c = Inr (pos_add ca cb))
       \<and> (\<forall>rs c w. Convolution_init (SingleList objs) rs gsp pg = Inr (c, w) \<and> objs \<noteq> []
             \<longrightarrow> flux c = prod_list (map flux objs)
               \<and> centroid c = Inr \<lparr>pos_x = sum_list (map pos_x cs), pos_y = sum_list (map pos_y cs)\<rparr>)"
proof (intro conjI allI impI)
  show "\<exists>c w. Convolution_init (SingleList [a, b]) (Some False) gsp pg = Inr (c, w)"
    by (rule Convolution_init_False_succeeds) simp
next
  obtain g where g: "(case gsp of None \<Rightarrow> GSParams_combine (map gsparams [a, b])
                | Some g \<Rightarrow> Inr (GSParams_check (Some g) g)) = Inr g"
    using gsparams_choice [of "[a, b]" gsp] by blast
  then show "has_hard_edges a \<and> has_hard_edges b
            \<or> (\<exists>c w. Convolution_init (SingleList [a, b]) None gsp pg = Inr (c, w))"
    by (auto simp: Convolution_init_def Let_def)
next
  assume "has_hard_edges a \<and> has_hard_edges b \<and> find_not_analytic_x [a, b] = Inr False"
  then show "Convolution_init (SingleList [a, b]) None gsp pg = Inl NotImplementedError"
    by (simp add: Convolution_init_def Let_def)
next
  assume h: "has_hard_edges a \<and> has_hard_edges b \<and> find_not_analytic_x [a, b] = Inr True"
  obtain g where g: "(case gsp of None \<Rightarrow> GSParams_combine (map gsparams [a, b])
                | Some g \<Rightarrow> Inr (GSParams_check (Some g) g)) = Inr g"
    using gsparams_choice [of "[a, b]" gsp] by blast
  with h show "\<exists>c. Convolution_init (SingleList [a, b]) None gsp pg = Inr (c, [WarnNotAnalyticX])"
    by (simp add: Convolution_init_def Let_def)
next
  fix rs c w
  assume "Convolution_init (SingleList [a, b]) rs gsp pg = Inr (c, w)"
  then obtain g where c: "c = Convolution (if pg then map (\<lambda>obj. withGSParams obj (Some g)) [a, b]
                                           else [a, b]) False g pg"
    by (elim Convolution_init_Inr) auto
  show "flux c = flux a * flux b"
    unfolding c by (simp add: flux_withGSParams)
  show "centroid c = Inr (pos_add ca cb)"
    unfolding c using assms(1,2) by (simp add: centroid_withGSParams)
next
  fix rs c w
  assume a: "Convolution_init (SingleList objs) rs gsp pg = Inr (c, w) \<and> objs \<noteq> []"
  then obtain g where c: "c = Convolution (if pg then map (\<lambda>obj. withGSParams obj (Some g)) objs
                                           else objs) False g pg"
    by (elim conjE Convolution_init_Inr) auto
  show "flux c = prod_list (map flux objs)"
    unfolding c by (simp add: flux_withGSParams o_def)
  from a collect_length [OF assms(3)] obtain c0 rest where cs: "cs = c0 # rest"
    by (cases cs) auto
  have "centroid c = Inr (foldl pos_add c0 rest)"
    unfolding c using assms(3) cs by (simp add: centroid_withGSParams o_def)
  also have "foldl pos_add c0 rest
               = \<lparr>pos_x = sum_list (map pos_x cs), pos_y = sum_list (map pos_y cs)\<rparr>"
    unfolding cs using foldl_pos_add_x [of c0 rest] foldl_pos_add_y [of c0 rest] by simp
  finally show "centroid c
      = Inr \<lparr>pos_x = sum_list (map pos_x cs), pos_y = sum_list (map pos_y cs)\<rparr>" .
qed

theorem Convolution_flux_centroid_witness:
  "centroid (stand_in ''Gaussian'' 2 1 2 False True) = Inr \<lparr>pos_x = 1, pos_y = 2\<rparr>
   \<and> centroid (stand_in ''Moffat'' 3 10 20 False True) = Inr \<lparr>pos_x = 10, pos_y = 20\<rparr>
   \<and> Convolution_init
        (SingleList [stand_in ''Gaussian'' 2 1 2 False True, stand_in ''Moffat'' 3 10 20 False True])
        None None True
      = Inr (Convolution [stand_in ''Gaussian'' 2 1 2 False True, stand_in ''Moffat'' 3 10 20 False True]
               False default_gsparams True, [])
   \<and> flux (Convolution [stand_in ''Gaussian'' 2 1 2 False True, stand_in ''Moffat'' 3 10 20 False True]
               False default_gsparams True) = 6
   \<and> centroid (Convolution [stand_in ''Gaussian'' 2 1 2 False True, stand_in ''Moffat'' 3 10 20 False True]
               False default_gsparams True) = Inr \<lparr>pos_x = 11, pos_y = 22\<rparr>"
proof -
  let ?a = "stand_in ''Gaussian'' 2 1 2 False True"
  let ?b = "stand_in ''Moffat'' 3 10 20 False True"
  have ca: "centroid ?a = Inr \<lparr>pos_x = 1, pos_y = 2\<rparr>" by simp
  have cb: "centroid ?b = Inr \<lparr>pos_x = 10, pos_y = 20\<rparr>" by simp
  have cs: "collect (map centroid [?a, ?b]) = Inr [\<lparr>pos_x = 1, pos_y = 2\<rparr>, \<lparr>pos_x = 10, pos_y = 20\<rparr>]"
    by simp
  have i: "Convolution_init (SingleList [?a, ?b]) None None True
             = Inr (Convolution [?a, ?b] False default_gsparams True, [])"
    by (simp add: Convolution_init_def)
  from Convolution_flux_centroid [OF ca cb cs, of None True] i ca cb
  show ?thesis by (simp add: pos_add_def)
qed




section \<open>Properties of images\<close>









text \<open>
  C9. For an image \<open>im\<close> with defined bounds and a \<^verbatim>\<open>BoundsI\<close> \<open>b\<close>: \<open>b\<close> is not
  fully contained in \<open>im.bounds\<close> (it is undefined or one of its edges lies outside)
  exactly when \<^verbatim>\<open>includes\<close> is false, and exactly then \<open>im[b]\<close> and
  \<open>im.subImage(b)\<close> fail with the bounds error, so that no sub-image is returned. The
  witness is \<^verbatim>\<open>Image(BoundsI(1,5,1,5))[BoundsI(3,9,3,9)]\<close>.
\<close>

theorem subImage_not_contained_fails:
  fixes im :: "('a::zero) Image"
  assumes "isDefined (bounds im)"
  shows "(\<not> isDefined b \<or> xmin b < xmin (bounds im) \<or> xmax (bounds im) < xmax b
            \<or> ymin b < ymin (bounds im) \<or> ymax (bounds im) < ymax b)
           = (\<not> Bounds_includes (bounds im) b)
       \<and> (Image_getitem im (IdxBounds b) = Inl GalSimBoundsError) = (\<not> Bounds_includes (bounds im) b)
       \<and> (subImage im b = Inl GalSimBoundsError) = (\<not> Bounds_includes (bounds im) b)
       \<and> (Bounds_includes (bounds im) b
            \<or> (\<forall>sub. Image_getitem im (IdxBounds b) \<noteq> Inr (ItemImage sub)))"
proof -
  have g: "(\<not> isDefined b \<or> xmin b < xmin (bounds im) \<or> xmax (bounds im) < xmax b
            \<or> ymin b < ymin (bounds im) \<or> ymax (bounds im) < ymax b)
           = (\<not> Bounds_includes (bounds im) b)"
    using assms by (auto simp: Bounds_includes_def)
  have a: "Image_of_array arr b w c \<noteq> Inl GalSimBoundsError" for arr :: "'a ndarray" and w c
    by (simp add: Image_of_array_def)
  have s: "(subImage im b = Inl GalSimBoundsError) = (\<not> Bounds_includes (bounds im) b)"
    using assms a by (simp add: subImage_def Let_def)
  have i: "(Image_getitem im (IdxBounds b) = Inl GalSimBoundsError) = (subImage im b = Inl GalSimBoundsError)"
    by (cases "subImage im b") auto
  show ?thesis using g s i by auto
qed

theorem subImage_not_contained_fails_witness:
  "Image_of_bounds (BoundsI4 1 5 1 5)
     = Inr \<lparr>array = zeros (5, 5), bounds = BoundsI4 1 5 1 5, wcs = None, isconst = False\<rparr>
   \<and> isDefined (BoundsI4 1 5 1 5)
   \<and> \<not> Bounds_includes (BoundsI4 1 5 1 5) (BoundsI4 3 9 3 9)
   \<and> Image_getitem \<lparr>array = zeros (5, 5) :: int ndarray, bounds = BoundsI4 1 5 1 5, wcs = None, isconst = False\<rparr>
        (IdxBounds (BoundsI4 3 9 3 9)) = Inl GalSimBoundsError"
proof -
  let ?im = "\<lparr>array = zeros (5, 5) :: int ndarray, bounds = BoundsI4 1 5 1 5, wcs = None, isconst = False\<rparr>"
  have d: "isDefined (bounds ?im)" by (simp add: isDefined_def BoundsI4_def)
  have n: "\<not> Bounds_includes (BoundsI4 1 5 1 5) (BoundsI4 3 9 3 9)"
    by (simp add: Bounds_includes_def BoundsI4_def)
  have c: "Image_of_bounds (BoundsI4 1 5 1 5)
     = Inr \<lparr>array = zeros (5, 5), bounds = BoundsI4 1 5 1 5, wcs = None, isconst = False\<rparr>"
    by (simp add: Image_of_bounds_def make_empty_def numpyShape_def isDefined_def BoundsI4_def)
  from subImage_not_contained_fails [OF d, of "BoundsI4 3 9 3 9"] d n c
  show ?thesis by simp
qed

text \<open>
  The methods that test \<^verbatim>\<open>isconst\<close> do so before anything else: on a const image each
  raises the immutability error and nothing is changed.
\<close>

lemma const_image_guarded_methods:
  assumes "isconst im"
  shows "setValue im parsed = Inl GalSimImmutableError"
    and "addValue im parsed = Inl GalSimImmutableError"
    and "fill im v = Inl GalSimImmutableError"
    and "setZero im = Inl GalSimImmutableError"
    and "resize im b w = Inl GalSimImmutableError"
    and "setSubImage im b rhs = Inl GalSimImmutableError"
    and "copyFrom im rhs = Inl GalSimImmutableError"
  using assms
  by (simp_all add: setValue_def addValue_def fill_def setZero_def resize_def setSubImage_def
      copyFrom_def)

text \<open>
  C4 does not hold of the in-place operators: \<^verbatim>\<open>Image_iadd\<close> and its siblings never test
  \<^verbatim>\<open>isconst\<close>. On a const image \<open>im += 1\<close> and \<open>im *= im2\<close> return the image with
  its pixels changed and raise nothing.
\<close>

theorem iadd_on_const_image_mutates:
  "Image_iadd \<lparr>array = [[1, 2::int]], bounds = BoundsI4 1 2 1 1, wcs = None, isconst = True\<rparr> (Scalar 1)
     = Inr \<lparr>array = [[2, 3]], bounds = BoundsI4 1 2 1 1, wcs = None, isconst = True\<rparr>
   \<and> Image_imul \<lparr>array = [[1, 2::int]], bounds = BoundsI4 1 2 1 1, wcs = None, isconst = True\<rparr>
        (Img \<lparr>array = [[5, 5]], bounds = BoundsI4 1 2 1 1, wcs = None, isconst = False\<rparr>)
     = Inr \<lparr>array = [[5, 10]], bounds = BoundsI4 1 2 1 1, wcs = None, isconst = True\<rparr>"
  by (simp add: Image_iadd_def Image_imul_def Image_iop_def shape_def)

section \<open>Properties of the photon loop\<close>



lemma while_loop_trace:
  assumes "0 < maxN"
  shows "while_loop g Ntot maxN Nleft acc = Some (acc @ loop_trace g Ntot maxN Nleft)"
  using assms
proof (induction g Ntot maxN Nleft arbitrary: acc rule: loop_trace.induct)
  case (1 g Ntot maxN Nleft)
  show ?case
  proof (cases "Nleft > 0")
    case True
    with "1.prems" have step: "Nleft > 0 \<and> maxN > 0" by simp
    show ?thesis
      by (subst while_loop.simps, subst loop_trace.simps)
         (simp add: step "1.IH" [OF step "1.prems"])
  next
    case False
    then show ?thesis
      by (subst while_loop.simps, subst loop_trace.simps) simp
  qed
qed

lemma loop_trace_sum:
  "0 < maxN \<Longrightarrow> sum_list (map (\<lambda>p. s_thisN (snd p)) (loop_trace g Ntot maxN Nleft)) = max 0 Nleft"
proof (induction g Ntot maxN Nleft rule: loop_trace.induct)
  case (1 g Ntot maxN Nleft)
  show ?case
  proof (cases "Nleft > 0")
    case True
    with "1.prems" have step: "Nleft > 0 \<and> maxN > 0" by simp
    from "1.IH" [OF step "1.prems"] step show ?thesis
      by (subst loop_trace.simps) (simp add: draw_phot_while_loop_shoot_def)
  next
    case False
    then show ?thesis by (subst loop_trace.simps) simp
  qed
qed

lemma loop_trace_each:
  "0 < maxN \<Longrightarrow> (n, s) \<in> set (loop_trace g Ntot maxN Nleft) \<Longrightarrow>
     0 < s_thisN s \<and> s_thisN s = min maxN n \<and> s_shot s = maxN
     \<and> s_scale s = flux_scale g (s_thisN s) Ntot"
proof (induction g Ntot maxN Nleft rule: loop_trace.induct)
  case (1 g Ntot maxN Nleft)
  show ?case
  proof (cases "Nleft > 0")
    case True
    with "1.prems" have step: "Nleft > 0 \<and> maxN > 0" by simp
    from "1.prems"(2) have "(n, s) = (Nleft, draw_phot_while_loop_shoot maxN (min maxN Nleft) Ntot g)
        \<or> (n, s) \<in> set (loop_trace g Ntot maxN (Nleft - min maxN Nleft))"
      by (subst (asm) loop_trace.simps) (simp add: step)
    then show ?thesis
    proof
      assume "(n, s) = (Nleft, draw_phot_while_loop_shoot maxN (min maxN Nleft) Ntot g)"
      with step show ?thesis by (simp add: draw_phot_while_loop_shoot_def)
    next
      assume "(n, s) \<in> set (loop_trace g Ntot maxN (Nleft - min maxN Nleft))"
      from "1.IH" [OF step "1.prems"(1) this] show ?thesis .
    qed
  next
    case False
    with "1.prems"(2) show ?thesis by (subst (asm) loop_trace.simps) simp
  qed
qed

lemma loop_trace_remaining:
  "0 < maxN \<Longrightarrow> i < length (loop_trace g Ntot maxN Nleft) \<Longrightarrow>
     fst (loop_trace g Ntot maxN Nleft ! i)
       = Nleft - sum_list (map (\<lambda>p. s_thisN (snd p)) (take i (loop_trace g Ntot maxN Nleft)))"
proof (induction g Ntot maxN Nleft arbitrary: i rule: loop_trace.induct)
  case (1 g Ntot maxN Nleft)
  show ?case
  proof (cases "Nleft > 0")
    case True
    with "1.prems" have step: "Nleft > 0 \<and> maxN > 0" by simp
    have unf: "loop_trace g Ntot maxN Nleft
        = (Nleft, draw_phot_while_loop_shoot maxN (min maxN Nleft) Ntot g)
            # loop_trace g Ntot maxN (Nleft - min maxN Nleft)"
      by (subst loop_trace.simps) (simp add: step)
    show ?thesis
    proof (cases i)
      case 0
      then show ?thesis by (simp add: unf)
    next
      case (Suc j)
      with "1.prems"(2) have "j < length (loop_trace g Ntot maxN (Nleft - min maxN Nleft))"
        by (simp add: unf)
      from "1.IH" [OF step "1.prems"(1) this] Suc show ?thesis
        by (simp add: unf draw_phot_while_loop_shoot_def)
    qed
  next
    case False
    with "1.prems"(2) show ?thesis by (subst (asm) loop_trace.simps) simp
  qed
qed

lemma pos_sum_list:
  fixes xs :: "int list"
  shows "xs \<noteq> [] \<Longrightarrow> \<forall>x \<in> set xs. 0 < x \<Longrightarrow> 0 < sum_list xs"
proof (induction xs)
  case Nil
  then show ?case by simp
next
  case (Cons x xs)
  show ?case
  proof (cases "xs = []")
    case True
    with Cons.prems show ?thesis by simp
  next
    case False
    with Cons have "0 < sum_list xs" by simp
    moreover from Cons.prems have "0 < x" by simp
    ultimately show ?thesis by simp
  qed
qed

lemma pos_sum_singleton:
  fixes xs :: "int list"
  assumes "\<forall>x \<in> set xs. 0 < x" and "i < length xs" and "xs ! i = sum_list xs"
  shows "length xs = 1"
proof -
  have split: "xs = take i xs @ xs ! i # drop (Suc i) xs"
    using assms(2) by (rule id_take_nth_drop)
  have "sum_list xs = sum_list (take i xs) + xs ! i + sum_list (drop (Suc i) xs)"
    by (subst split) simp
  with assms(3) have z: "sum_list (take i xs) + sum_list (drop (Suc i) xs) = 0" by simp
  have pt: "\<forall>x \<in> set (take i xs). 0 < x" using assms(1) by (meson in_set_takeD)
  have pd: "\<forall>x \<in> set (drop (Suc i) xs). 0 < x" using assms(1) by (meson in_set_dropD)
  have "take i xs = []"
  proof (rule ccontr)
    assume "take i xs \<noteq> []"
    from pos_sum_list [OF this pt] have "0 < sum_list (take i xs)" .
    moreover have "0 \<le> sum_list (drop (Suc i) xs)"
      using pos_sum_list [OF _ pd] by (cases "drop (Suc i) xs = []") auto
    ultimately show False using z by simp
  qed
  moreover have "drop (Suc i) xs = []"
  proof (rule ccontr)
    assume "drop (Suc i) xs \<noteq> []"
    from pos_sum_list [OF this pd] have "0 < sum_list (drop (Suc i) xs)" .
    moreover have "0 \<le> sum_list (take i xs)"
      using pos_sum_list [OF _ pt] by (cases "take i xs = []") auto
    ultimately show False using z by simp
  qed
  ultimately have "i = 0" and "length xs \<le> Suc i"
    using assms(2) by auto
  moreover from assms(2) have "0 < length xs" by auto
  ultimately show ?thesis by linarith
qed

lemma flux_scale_cases:
  "flux_scale g thisN Ntot =
     (if g = 1 \<and> thisN = Ntot then None else Some (g * real_of_int thisN / real_of_int Ntot))"
  by (auto simp: flux_scale_def)


lemma loop_trace_only_chunk:
  assumes "0 < maxN" and "0 < Ntot" and "i < length (loop_trace g Ntot maxN Ntot)"
  shows "(s_thisN (snd (loop_trace g Ntot maxN Ntot ! i)) = Ntot)
           = (length (loop_trace g Ntot maxN Ntot) = 1)"
proof -
  let ?tr = "loop_trace g Ntot maxN Ntot"
  let ?xs = "map (\<lambda>p. s_thisN (snd p)) ?tr"
  have sum: "sum_list ?xs = Ntot"
    using loop_trace_sum [OF assms(1), of g Ntot Ntot] assms(2) by simp
  have pos: "\<forall>x \<in> set ?xs. 0 < x"
  proof
    fix x
    assume "x \<in> set ?xs"
    then obtain p where p: "p \<in> set ?tr" and x: "x = s_thisN (snd p)" by auto
    from p have "(fst p, snd p) \<in> set ?tr" by simp
    from loop_trace_each [OF assms(1) this, THEN conjunct1] x show "0 < x" by simp
  qed
  have nth: "?xs ! i = s_thisN (snd (?tr ! i))"
    using assms(3) by simp
  show ?thesis
  proof
    assume "s_thisN (snd (?tr ! i)) = Ntot"
    with sum nth have "?xs ! i = sum_list ?xs" by simp
    from pos_sum_singleton [OF pos _ this] assms(3) show "length ?tr = 1" by simp
  next
    assume one: "length ?tr = 1"
    then obtain p where p: "?tr = [p]"
      by (cases ?tr) auto
    with assms(3) have "i = 0" by simp
    with sum p show "s_thisN (snd (?tr ! i)) = Ntot" by simp
  qed
qed

text \<open>
  C2 (amended). With \<^verbatim>\<open>maxN\<close> and \<^verbatim>\<open>Ntot\<close> positive the loop of \<^verbatim>\<open>drawPhot\<close> ends,
  and its iterations keep \<^verbatim>\<open>Ntot\<close> photons in all. Iteration \<open>i\<close> starts with
  \<^verbatim>\<open>Ntot\<close> minus the photons kept so far left to draw, shoots \<^verbatim>\<open>maxN\<close> photons, keeps
  \<open>thisN = min(maxN, remaining)\<close> of them and scales their flux by
  \<open>g * thisN / Ntot\<close>, where \<open>g\<close> is the factor returned by \<^verbatim>\<open>_calculate_nphotons\<close>
  divided by the gain (the factor itself when the gain is one); the multiplication is
  skipped exactly when \<open>g = 1\<close> and the chunk is the only one. Without \<^verbatim>\<open>maxN\<close> all
  \<^verbatim>\<open>Ntot\<close> photons are one chunk, under the same rule.
\<close>

theorem drawPhot_chunks:
  assumes "0 < maxN" and "0 < Ntot"
  shows "\<exists>tr. draw_phot_while_loop (drawPhot_g g0 gain) Ntot maxN = Some tr
      \<and> drawPhot g0 gain Ntot (Some maxN) None = Some (map snd tr)
      \<and> tr \<noteq> []
      \<and> sum_list (map (\<lambda>p. s_thisN (snd p)) tr) = Ntot
      \<and> (\<forall>i<length tr.
            fst (tr ! i) = Ntot - sum_list (map (\<lambda>p. s_thisN (snd p)) (take i tr))
          \<and> s_thisN (snd (tr ! i)) = min maxN (fst (tr ! i))
          \<and> s_shot (snd (tr ! i)) = maxN
          \<and> s_scale (snd (tr ! i)) =
              (if drawPhot_g g0 gain = 1 \<and> length tr = 1 then None
               else Some (drawPhot_g g0 gain * real_of_int (s_thisN (snd (tr ! i)))
                            / real_of_int Ntot)))
      \<and> drawPhot g0 gain Ntot None None
          = Some [\<lparr>s_shot = Ntot, s_thisN = Ntot,
                   s_scale = (if drawPhot_g g0 gain = 1 then None
                              else Some (drawPhot_g g0 gain * real_of_int Ntot / real_of_int Ntot))\<rparr>]
      \<and> drawPhot_g g0 gain = (if gain = 1 then g0 else g0 / gain)"
proof -
  let ?g = "drawPhot_g g0 gain"
  let ?tr = "loop_trace ?g Ntot maxN Ntot"
  have run: "draw_phot_while_loop ?g Ntot maxN = Some ?tr"
    using while_loop_trace [OF assms(1), of ?g Ntot Ntot "[]"]
    by (simp add: draw_phot_while_loop_def)
  have dp: "drawPhot g0 gain Ntot (Some maxN) None = Some (map snd ?tr)"
    by (simp add: drawPhot_def drawPhot_maxN_def run)
  have ne: "?tr \<noteq> []"
    using assms by (subst loop_trace.simps) simp
  have sum: "sum_list (map (\<lambda>p. s_thisN (snd p)) ?tr) = Ntot"
    using loop_trace_sum [OF assms(1), of ?g Ntot Ntot] assms(2) by simp
  have each: "fst (?tr ! i) = Ntot - sum_list (map (\<lambda>p. s_thisN (snd p)) (take i ?tr))
          \<and> s_thisN (snd (?tr ! i)) = min maxN (fst (?tr ! i))
          \<and> s_shot (snd (?tr ! i)) = maxN
          \<and> s_scale (snd (?tr ! i)) =
              (if ?g = 1 \<and> length ?tr = 1 then None
               else Some (?g * real_of_int (s_thisN (snd (?tr ! i))) / real_of_int Ntot))"
    if i: "i < length ?tr" for i
  proof -
    from i have "(fst (?tr ! i), snd (?tr ! i)) \<in> set ?tr" by simp
    from loop_trace_each [OF assms(1) this]
    have e: "s_thisN (snd (?tr ! i)) = min maxN (fst (?tr ! i))" "s_shot (snd (?tr ! i)) = maxN"
      "s_scale (snd (?tr ! i)) = flux_scale ?g (s_thisN (snd (?tr ! i))) Ntot"
      by simp_all
    have r: "fst (?tr ! i) = Ntot - sum_list (map (\<lambda>p. s_thisN (snd p)) (take i ?tr))"
      by (rule loop_trace_remaining [OF assms(1) i])
    have "s_scale (snd (?tr ! i)) =
              (if ?g = 1 \<and> length ?tr = 1 then None
               else Some (?g * real_of_int (s_thisN (snd (?tr ! i))) / real_of_int Ntot))"
      unfolding e(3) flux_scale_cases loop_trace_only_chunk [OF assms i] ..
    with r e(1,2) show ?thesis by blast
  qed
  have single: "drawPhot g0 gain Ntot None None
          = Some [\<lparr>s_shot = Ntot, s_thisN = Ntot,
                   s_scale = (if ?g = 1 then None
                              else Some (?g * real_of_int Ntot / real_of_int Ntot))\<rparr>]"
    by (simp add: drawPhot_def drawPhot_maxN_def draw_phot_while_loop_shoot_def flux_scale_cases)
  have g: "?g = (if gain = 1 then g0 else g0 / gain)"
    by (simp add: drawPhot_g_def)
  from run dp ne sum each single g show ?thesis by blast
qed

text \<open>
  C2, as stated, fails: with gain 2, a unit factor from \<^verbatim>\<open>_calculate_nphotons\<close>, ten
  photons and \<^verbatim>\<open>maxN = 4\<close>, the first chunk of four is scaled by
  \<open>(1 / 2) * 4 / 10 = 1 / 5\<close>, not by the gain times \<open>4 / 10\<close>.
\<close>

theorem drawPhot_gain_two_example:
  "drawPhot 1 2 10 (Some 4) None
     = Some [\<lparr>s_shot = 4, s_thisN = 4, s_scale = Some (1 / 5)\<rparr>,
             \<lparr>s_shot = 4, s_thisN = 4, s_scale = Some (1 / 5)\<rparr>,
             \<lparr>s_shot = 4, s_thisN = 2, s_scale = Some (1 / 10)\<rparr>]
   \<and> spec_flux_scale 2 4 10 3 = Some (4 / 5)
   \<and> Some (1 / 5) \<noteq> spec_flux_scale 2 4 10 3"
proof -
  have "draw_phot_while_loop (1 / 2) 10 4
     = Some [(10, \<lparr>s_shot = 4, s_thisN = 4, s_scale = Some (1 / 5)\<rparr>),
             (6, \<lparr>s_shot = 4, s_thisN = 4, s_scale = Some (1 / 5)\<rparr>),
             (2, \<lparr>s_shot = 4, s_thisN = 2, s_scale = Some (1 / 10)\<rparr>)]"
    unfolding draw_phot_while_loop_def
    by (simp add: while_loop.simps draw_phot_while_loop_shoot_def flux_scale_def)
  then show ?thesis
    by (simp add: drawPhot_def drawPhot_g_def drawPhot_maxN_def spec_flux_scale_def)
qed


theorem drawPhot_chunks_witness:
  "(0::int) < 5 \<and> (0::int) < 3
   \<and> drawPhot 1 1 3 (Some 5) None = Some [\<lparr>s_shot = 5, s_thisN = 3, s_scale = None\<rparr>]
   \<and> (0::int) < 2 \<and> (0::int) < 4
   \<and> drawPhot 1 4 4 (Some 2) None
       = Some [\<lparr>s_shot = 2, s_thisN = 2, s_scale = Some (1 / 8)\<rparr>,
               \<lparr>s_shot = 2, s_thisN = 2, s_scale = Some (1 / 8)\<rparr>]"
proof -
  have p: "(0::int) < 5" "(0::int) < 3" and q: "(0::int) < 2" "(0::int) < 4" by simp_all
  from drawPhot_chunks [OF p, of 1 1] obtain tr where
    r: "draw_phot_while_loop (drawPhot_g 1 1) 3 5 = Some tr"
    and d: "drawPhot 1 1 3 (Some 5) None = Some (map snd tr)"
    by blast
  have "draw_phot_while_loop (drawPhot_g 1 1) 3 5
          = Some [(3, \<lparr>s_shot = 5, s_thisN = 3, s_scale = None\<rparr>)]"
    unfolding draw_phot_while_loop_def
    by (simp add: while_loop.simps draw_phot_while_loop_shoot_def flux_scale_def drawPhot_g_def)
  with r have tr: "tr = [(3, \<lparr>s_shot = 5, s_thisN = 3, s_scale = None\<rparr>)]" by simp
  from drawPhot_chunks [OF q, of 1 4] obtain tr2 where
    r2: "draw_phot_while_loop (drawPhot_g 1 4) 4 2 = Some tr2"
    and d2: "drawPhot 1 4 4 (Some 2) None = Some (map snd tr2)"
    by blast
  have "draw_phot_while_loop (drawPhot_g 1 4) 4 2
          = Some [(4, \<lparr>s_shot = 2, s_thisN = 2, s_scale = Some (1 / 8)\<rparr>),
                  (2, \<lparr>s_shot = 2, s_thisN = 2, s_scale = Some (1 / 8)\<rparr>)]"
    unfolding draw_phot_while_loop_def
    by (simp add: while_loop.simps draw_phot_while_loop_shoot_def flux_scale_def drawPhot_g_def)
  with r2 have tr2: "tr2 = [(4, \<lparr>s_shot = 2, s_thisN = 2, s_scale = Some (1 / 8)\<rparr>),
                  (2, \<lparr>s_shot = 2, s_thisN = 2, s_scale = Some (1 / 8)\<rparr>)]" by simp
  from d d2 show ?thesis unfolding tr tr2 by simp
qed

end
